theory Spec2Isabelle
  imports Complex_Main
begin

section \<open>Numeric cells and columns\<close>

text \<open>
  A cell of a float64 column is a real number or NaN; \<open>None\<close> stands for NaN (a missing
  value). Arithmetic on the cells is exact real arithmetic: the rounding of the thermal
  sums and of the regression, and the infinities of IEEE doubles, are left out of the
  model. The candidates of the grid are computed in doubles, see \<open>float64\<close> below.
\<close>

type_synonym f64 = "real option"

datatype error = KeyError | ValueError | TypeError | AttributeError | ZeroDivisionError

definition f64_add :: "f64 \<Rightarrow> f64 \<Rightarrow> f64" where
  "f64_add a b = (case a of None \<Rightarrow> None | Some x \<Rightarrow> (case b of None \<Rightarrow> None | Some y \<Rightarrow> Some (x + y)))"

definition f64_sub :: "f64 \<Rightarrow> real \<Rightarrow> f64" where
  "f64_sub a c = (case a of None \<Rightarrow> None | Some x \<Rightarrow> Some (x - c))"

definition f64_div :: "f64 \<Rightarrow> real \<Rightarrow> f64" where
  "f64_div a c = (case a of None \<Rightarrow> None | Some x \<Rightarrow> Some (x / c))"

text \<open>\<^verbatim>\<open>np.maximum(v, c)\<close>: NaN stays NaN.\<close>

definition np_maximum :: "f64 \<Rightarrow> real \<Rightarrow> f64" where
  "np_maximum a c = (case a of None \<Rightarrow> None | Some x \<Rightarrow> Some (max x c))"

text \<open>
  \<^verbatim>\<open>Series.cumsum()\<close> of pandas with its default \<^verbatim>\<open>skipna=True\<close>: a NaN entry stays NaN
  in the result and adds nothing to the running sum. \<^verbatim>\<open>np.cumsum\<close> applied to a Series
  calls this method too.
\<close>

fun cumsum_from :: "real \<Rightarrow> f64 list \<Rightarrow> f64 list" where
  "cumsum_from acc [] = []"
| "cumsum_from acc (None # xs) = None # cumsum_from acc xs"
| "cumsum_from acc (Some x # xs) = Some (acc + x) # cumsum_from (acc + x) xs"

definition cumsum :: "f64 list \<Rightarrow> f64 list" where
  "cumsum xs = cumsum_from 0 xs"

text \<open>
  The candidates are the one place where the rounding of doubles decides something
  discrete, the number of rows, so there the double arithmetic is modelled. \<open>float64 x\<close>
  is the double nearest to the real \<open>x\<close> (binary64: 53 significant bits, gradual
  underflow, ties to the even significand; overflow to infinity is left out).
  \<open>binade n x\<close> is the exponent \<open>e\<close> with \<open>2 ^ e \<le> x < 2 ^ (e + 1)\<close>, searched in at most \<open>n\<close>
  steps.
\<close>

fun binade :: "nat \<Rightarrow> real \<Rightarrow> int" where
  "binade 0 x = 0"
| "binade (Suc n) x =
     (if 2 \<le> x then binade n (x / 2) + 1 else if x < 1 then binade n (2 * x) - 1 else 0)"

definition pow2 :: "int \<Rightarrow> real" where
  "pow2 k = (if 0 \<le> k then 2 ^ nat k else 1 / 2 ^ nat (- k))"

definition round_half_even :: "real \<Rightarrow> int" where
  "round_half_even y =
     (let f = \<lfloor>y\<rfloor>; d = y - of_int f
      in if d < 1 / 2 then f else if 1 / 2 < d then f + 1 else if even f then f else f + 1)"

definition float64 :: "real \<Rightarrow> real" where
  "float64 x =
     (if x = 0 then 0
      else let e = max (binade 1100 \<bar>x\<bar>) (- 1022); q = pow2 (e - 52)
           in of_int (round_half_even (x / q)) * q)"

text \<open>
  \<^verbatim>\<open>np.arange(start, stop, step)\<close> on doubles. The length is the ceiling of the double
  quotient \<^verbatim>\<open>(stop - start) / step\<close> (no entry when it is not positive; a zero step
  raises). The first entry is \<^verbatim>\<open>start\<close>, the second the double \<^verbatim>\<open>start + step\<close>, and
  entry \<open>i\<close> is \<^verbatim>\<open>start + i * delta\<close> in doubles, where \<^verbatim>\<open>delta\<close> is the double difference
  of the first two entries.
\<close>

definition np_arange :: "real \<Rightarrow> real \<Rightarrow> real \<Rightarrow> error + real list" where
  "np_arange start stop step =
     (if step = 0 then Inl ZeroDivisionError
      else
        let n = nat \<lceil>float64 (float64 (stop - start) / step)\<rceil>;
            next = float64 (start + step);
            delta = float64 (next - start)
        in Inr (map (\<lambda>i. if i = 0 then start
                         else if i = 1 then next
                         else float64 (start + float64 (real i * delta)))
                    [0..<n]))"

text \<open>
  \<^verbatim>\<open>Series.idxmin()\<close> and \<^verbatim>\<open>Series.idxmax()\<close> on a column with the default index
  0, 1, 2, ...: NaN entries are skipped, the first position of the extreme value is
  returned, and a column with no value raises.
\<close>

fun idx_scan :: "(real \<Rightarrow> real \<Rightarrow> bool) \<Rightarrow> (nat \<times> real) option \<Rightarrow> nat \<Rightarrow> f64 list \<Rightarrow> (nat \<times> real) option" where
  "idx_scan better best i [] = best"
| "idx_scan better best i (None # xs) = idx_scan better best (Suc i) xs"
| "idx_scan better best i (Some x # xs) =
     (case best of
        None \<Rightarrow> idx_scan better (Some (i, x)) (Suc i) xs
      | Some (bi, bv) \<Rightarrow>
          if better x bv then idx_scan better (Some (i, x)) (Suc i) xs
          else idx_scan better (Some (bi, bv)) (Suc i) xs)"

definition idxmin :: "f64 list \<Rightarrow> error + nat" where
  "idxmin xs = (case idx_scan (<) None 0 xs of None \<Rightarrow> Inl ValueError | Some (i, v) \<Rightarrow> Inr i)"

definition idxmax :: "f64 list \<Rightarrow> error + nat" where
  "idxmax xs = (case idx_scan (>) None 0 xs of None \<Rightarrow> Inl ValueError | Some (i, v) \<Rightarrow> Inr i)"

section \<open>Least squares, as the programs use scikit-learn\<close>

text \<open>The values of a column when none is NaN.\<close>

fun all_present :: "f64 list \<Rightarrow> real list option" where
  "all_present [] = Some []"
| "all_present (None # xs) = None"
| "all_present (Some x # xs) = (case all_present xs of None \<Rightarrow> None | Some ys \<Rightarrow> Some (x # ys))"

definition mean :: "real list \<Rightarrow> real" where
  "mean xs = sum_list xs / real (length xs)"

text \<open>
  \<^verbatim>\<open>LinearRegression().fit(X, y)\<close> with one feature: ordinary least squares with an
  intercept, returned as (coefficient, intercept). When all abscissae are equal the
  least-norm solution has coefficient 0. An empty sample, a NaN in \<open>X\<close> and samples of
  different lengths raise ValueError.
\<close>

definition ols :: "real list \<Rightarrow> real list \<Rightarrow> real \<times> real" where
  "ols xs ys =
     (let mx = mean xs; my = mean ys;
          sxx = sum_list (map (\<lambda>x. (x - mx)\<^sup>2) xs);
          sxy = sum_list (map2 (\<lambda>x y. (x - mx) * (y - my)) xs ys);
          coef = (if sxx = 0 then 0 else sxy / sxx)
      in (coef, my - coef * mx))"

definition LinearRegression_fit :: "f64 list \<Rightarrow> real list \<Rightarrow> error + (real \<times> real)" where
  "LinearRegression_fit X y =
     (case all_present X of
        None \<Rightarrow> Inl ValueError
      | Some xs \<Rightarrow> if xs = [] \<or> length xs \<noteq> length y then Inl ValueError else Inr (ols xs y))"

text \<open>\<^verbatim>\<open>model.predict(X)\<close>; a NaN in \<open>X\<close> raises ValueError.\<close>

definition predict :: "real \<times> real \<Rightarrow> f64 list \<Rightarrow> error + real list" where
  "predict m X =
     (case all_present X of
        None \<Rightarrow> Inl ValueError
      | Some xs \<Rightarrow> Inr (map (\<lambda>x. fst m * x + snd m) xs))"

definition mean_squared_error :: "real list \<Rightarrow> real list \<Rightarrow> real" where
  "mean_squared_error y y_pred = mean (map2 (\<lambda>a p. (a - p)\<^sup>2) y y_pred)"

text \<open>
  \<^verbatim>\<open>r2_score(y, y_pred)\<close>: NaN for fewer than two samples; with a constant \<open>y\<close> the score
  is 1 for a perfect prediction and 0 otherwise.
\<close>

definition r2_score :: "real list \<Rightarrow> real list \<Rightarrow> f64" where
  "r2_score y y_pred =
     (if length y_pred < 2 then None
      else let ss_res = sum_list (map2 (\<lambda>a p. (a - p)\<^sup>2) y y_pred);
               ss_tot = sum_list (map (\<lambda>a. (a - mean y)\<^sup>2) y)
           in Some (if ss_tot \<noteq> 0 then 1 - ss_res / ss_tot else if ss_res \<noteq> 0 then 0 else 1))"

section \<open>Tables\<close>

text \<open>
  A cell of an uploaded table: a number, a text, a parsed timestamp, or nothing (NaN,
  NaT, an empty cell). A DataFrame maps its column names to columns.
\<close>

datatype cell = Num real | Str string | Stamp int | Missing

type_synonym dataframe = "string \<rightharpoonup> cell list"

definition isnull :: "cell \<Rightarrow> bool" where
  "isnull c = (case c of Missing \<Rightarrow> True | _ \<Rightarrow> False)"

text \<open>The float64 value of a cell of a numeric column.\<close>

definition cell_f64 :: "cell \<Rightarrow> f64" where
  "cell_f64 c = (case c of Num r \<Rightarrow> Some r | _ \<Rightarrow> None)"

definition f64_cell :: "f64 \<Rightarrow> cell" where
  "f64_cell v = (case v of None \<Rightarrow> Missing | Some r \<Rightarrow> Num r)"

text \<open>
  \<^verbatim>\<open>pd.to_numeric(col, errors='coerce')\<close>, cell by cell; \<open>parse_num\<close> is pandas' reading
  of a text as a number (\<open>None\<close> when the text is not a number).
\<close>

definition to_numeric :: "(string \<Rightarrow> real option) \<Rightarrow> cell \<Rightarrow> cell" where
  "to_numeric parse_num c =
     (case c of
        Num r \<Rightarrow> Num r
      | Str s \<Rightarrow> (case parse_num s of None \<Rightarrow> Missing | Some r \<Rightarrow> Num r)
      | Stamp t \<Rightarrow> Num (real_of_int t)
      | Missing \<Rightarrow> Missing)"

text \<open>
  \<^verbatim>\<open>pd.to_datetime\<close>, cell by cell; \<open>parse\<close> is pandas' reading of a text as a date, with
  or without \<^verbatim>\<open>dayfirst\<close>. A timestamp and a missing value (NaT) are already of the
  target type and pass unchanged. \<open>None\<close>: the cell cannot be read.
\<close>

definition to_datetime_cell :: "(string \<Rightarrow> int option) \<Rightarrow> cell \<Rightarrow> cell option" where
  "to_datetime_cell parse c =
     (case c of
        Stamp t \<Rightarrow> Some (Stamp t)
      | Missing \<Rightarrow> Some Missing
      | Num r \<Rightarrow> Some (Stamp \<lfloor>r\<rfloor>)
      | Str s \<Rightarrow> (case parse s of None \<Rightarrow> None | Some t \<Rightarrow> Some (Stamp t)))"

text \<open>\<^verbatim>\<open>errors='coerce'\<close>: what cannot be read becomes NaT.\<close>

definition to_datetime_coerce :: "(string \<Rightarrow> int option) \<Rightarrow> cell list \<Rightarrow> cell list" where
  "to_datetime_coerce parse cells =
     map (\<lambda>c. case to_datetime_cell parse c of None \<Rightarrow> Missing | Some d \<Rightarrow> d) cells"

text \<open>\<^verbatim>\<open>errors='raise'\<close>: what cannot be read raises.\<close>

fun to_datetime_raise :: "(string \<Rightarrow> int option) \<Rightarrow> cell list \<Rightarrow> error + cell list" where
  "to_datetime_raise parse [] = Inr []"
| "to_datetime_raise parse (c # cs) =
     (case to_datetime_cell parse c of
        None \<Rightarrow> Inl ValueError
      | Some d \<Rightarrow> (case to_datetime_raise parse cs of Inl e \<Rightarrow> Inl e | Inr ds \<Rightarrow> Inr (d # ds)))"

section \<open>app.py: validation\<close>

datatype message =
    MissingColumns "string list"
  | DateConversion
  | TminAboveTmax
  | NFDecrease

definition required_cols :: "string list" where
  "required_cols = [''Data'', ''Tmin'', ''Tmax'', ''NF'']"

text \<open>
  The \<^verbatim>\<open>try\<close> block of \<^verbatim>\<open>validate_data\<close>: the column \<^verbatim>\<open>Data\<close> is overwritten with the
  day-first coercion; if that column now holds a null, \<^verbatim>\<open>pd.to_datetime\<close> is called again,
  with \<^verbatim>\<open>errors='raise'\<close>, on the column just written. An exception appends the message.
\<close>

definition convert_data :: "(bool \<Rightarrow> string \<Rightarrow> int option) \<Rightarrow> dataframe \<Rightarrow> dataframe \<times> message list" where
  "convert_data parse_date df =
     (case df ''Data'' of
        None \<Rightarrow> (df, [DateConversion])
      | Some raw \<Rightarrow>
          let coerced = to_datetime_coerce (parse_date True) raw;
              df1 = df(''Data'' \<mapsto> coerced)
          in if list_ex isnull coerced
             then (case to_datetime_raise (parse_date False) coerced of
                     Inl e \<Rightarrow> (df1, [DateConversion])
                   | Inr again \<Rightarrow> (df1(''Data'' \<mapsto> again), []))
             else (df1, []))"

text \<open>\<^verbatim>\<open>df[col] = pd.to_numeric(df[col], errors='coerce')\<close>.\<close>

definition coerce_col :: "(string \<Rightarrow> real option) \<Rightarrow> dataframe \<Rightarrow> string \<Rightarrow> dataframe" where
  "coerce_col parse_num df col =
     (case df col of None \<Rightarrow> df | Some cells \<Rightarrow> df(col \<mapsto> map (to_numeric parse_num) cells))"

text \<open>\<^verbatim>\<open>(df['Tmin'] > df['Tmax']).any()\<close>: a comparison with NaN is false.\<close>

definition tmin_gt_tmax :: "cell list \<Rightarrow> cell list \<Rightarrow> bool" where
  "tmin_gt_tmax tmin tmax =
     list_ex (\<lambda>(a, b). case cell_f64 a of None \<Rightarrow> False
                        | Some x \<Rightarrow> (case cell_f64 b of None \<Rightarrow> False | Some y \<Rightarrow> x > y))
             (zip tmin tmax)"

text \<open>\<^verbatim>\<open>df['NF'].dropna()\<close> and \<^verbatim>\<open>(nf_series.diff() < 0).any()\<close>.\<close>

fun dropna :: "f64 list \<Rightarrow> real list" where
  "dropna [] = []"
| "dropna (None # xs) = dropna xs"
| "dropna (Some x # xs) = x # dropna xs"

fun diff_negative :: "real list \<Rightarrow> bool" where
  "diff_negative (x # y # ys) = (y - x < 0 \<or> diff_negative (y # ys))"
| "diff_negative _ = False"

definition validate_data ::
  "(bool \<Rightarrow> string \<Rightarrow> int option) \<Rightarrow> (string \<Rightarrow> real option) \<Rightarrow> dataframe \<Rightarrow> dataframe \<times> message list" where
  "validate_data parse_date parse_num df =
     (let missing_cols = filter (\<lambda>col. df col = None) required_cols
      in if missing_cols \<noteq> [] then (df, [MissingColumns missing_cols])
         else
           let (df1, errors1) = convert_data parse_date df;
               df2 = foldl (coerce_col parse_num) df1 [''Tmin'', ''Tmax'', ''NF''];
               errors2 = (case (df2 ''Tmin'', df2 ''Tmax'') of
                            (Some tmin, Some tmax) \<Rightarrow>
                              if tmin_gt_tmax tmin tmax then errors1 @ [TminAboveTmax] else errors1
                          | _ \<Rightarrow> errors1);
               errors3 = (case df2 ''NF'' of
                            Some nf \<Rightarrow>
                              if diff_negative (dropna (map cell_f64 nf)) then errors2 @ [NFDecrease]
                              else errors2
                          | None \<Rightarrow> errors2)
           in (df2, errors3))"

section \<open>app.py: the grid search\<close>

text \<open>
  \<^verbatim>\<open>calculate_tb\<close> receives the frame that \<^verbatim>\<open>validate_data\<close> returned, whose columns
  \<^verbatim>\<open>Tmin\<close>, \<^verbatim>\<open>Tmax\<close> and \<^verbatim>\<open>NF\<close> are float64. Arithmetic on a column that holds
  anything else raises.
\<close>

definition is_number :: "cell \<Rightarrow> bool" where
  "is_number c = (case c of Num r \<Rightarrow> True | Missing \<Rightarrow> True | _ \<Rightarrow> False)"

definition numeric_col :: "cell list \<Rightarrow> error + f64 list" where
  "numeric_col cells = (if list_all is_number cells then Inr (map cell_f64 cells) else Inl TypeError)"

text \<open>
  The three derived columns:
  \<^verbatim>\<open>df['Tmed'] = (df['Tmin'] + df['Tmax']) / 2\<close>,
  \<^verbatim>\<open>df['STd'] = df['Tmed'] - tb; df.loc[df['STd'] < 0, 'STd'] = 0\<close> (a NaN is not below 0
  and stays), and \<^verbatim>\<open>df['STa'] = df['STd'].cumsum()\<close>.
\<close>

definition tb_Tmed :: "f64 list \<Rightarrow> f64 list \<Rightarrow> f64 list" where
  "tb_Tmed tmin tmax = map2 (\<lambda>a b. f64_div (f64_add a b) 2) tmin tmax"

definition tb_STd :: "f64 list \<Rightarrow> real \<Rightarrow> f64 list" where
  "tb_STd tmed tb =
     map (\<lambda>v. case f64_sub v tb of None \<Rightarrow> None | Some d \<Rightarrow> if d < 0 then Some 0 else Some d) tmed"

definition tb_STa :: "f64 list \<Rightarrow> f64 list" where
  "tb_STa std = cumsum std"

text \<open>
  \<^verbatim>\<open>df.loc[pheno_df.index]['STa']\<close>, where \<^verbatim>\<open>pheno_df = df.dropna(subset=['NF'])\<close>: the
  accumulated sum on the rows that have a leaf count.
\<close>

definition sta_for_regression :: "f64 list \<Rightarrow> f64 list \<Rightarrow> f64 list" where
  "sta_for_regression nf sta = map snd (filter (\<lambda>(n, s). n \<noteq> None) (zip nf sta))"

record tb_row =
  Tb :: real
  QME :: real
  R2 :: f64

text \<open>One pass of the loop over \<^verbatim>\<open>base_temps\<close>: the frame after it, and the row or the exception.\<close>

definition tb_iteration :: "dataframe \<Rightarrow> f64 list \<Rightarrow> f64 list \<Rightarrow> real \<Rightarrow> dataframe \<times> (error + tb_row)" where
  "tb_iteration df tmed nf tb =
     (let std = tb_STd tmed tb;
          df1 = df(''STd'' \<mapsto> map f64_cell std);
          sta = tb_STa std;
          df2 = df1(''STa'' \<mapsto> map f64_cell sta);
          X = sta_for_regression nf sta;
          y = dropna nf
      in (df2,
          case LinearRegression_fit X y of
            Inl e \<Rightarrow> Inl e
          | Inr model \<Rightarrow>
              (case predict model X of
                 Inl e \<Rightarrow> Inl e
               | Inr y_pred \<Rightarrow>
                   Inr \<lparr>Tb = tb, QME = mean_squared_error y y_pred, R2 = r2_score y y_pred\<rparr>)))"

fun tb_loop :: "dataframe \<Rightarrow> f64 list \<Rightarrow> f64 list \<Rightarrow> real list \<Rightarrow> tb_row list \<Rightarrow> dataframe \<times> (error + tb_row list)" where
  "tb_loop df tmed nf [] results = (df, Inr results)"
| "tb_loop df tmed nf (tb # tbs) results =
     (case tb_iteration df tmed nf tb of
        (df', Inl e) \<Rightarrow> (df', Inl e)
      | (df', Inr row) \<Rightarrow> tb_loop df' tmed nf tbs (results @ [row]))"

text \<open>
  \<^verbatim>\<open>calculate_tb(df)\<close>, with the frame it leaves behind: the function writes the columns
  \<^verbatim>\<open>Tmed\<close>, \<^verbatim>\<open>STd\<close> and \<^verbatim>\<open>STa\<close> into its argument.
\<close>

definition calculate_tb :: "dataframe \<Rightarrow> dataframe \<times> (error + tb_row list \<times> tb_row)" where
  "calculate_tb df =
     (case df ''Tmin'' of None \<Rightarrow> (df, Inl KeyError) | Some tmin_cells \<Rightarrow>
      case df ''Tmax'' of None \<Rightarrow> (df, Inl KeyError) | Some tmax_cells \<Rightarrow>
      case numeric_col tmin_cells of Inl e \<Rightarrow> (df, Inl e) | Inr tmin \<Rightarrow>
      case numeric_col tmax_cells of Inl e \<Rightarrow> (df, Inl e) | Inr tmax \<Rightarrow>
        let tmed = tb_Tmed tmin tmax;
            df1 = df(''Tmed'' \<mapsto> map f64_cell tmed)
        in case df1 ''NF'' of None \<Rightarrow> (df1, Inl KeyError) | Some nf_cells \<Rightarrow>
           case numeric_col nf_cells of Inl e \<Rightarrow> (df1, Inl e) | Inr nf \<Rightarrow>
           case np_arange 0 20.5 0.5 of Inl e \<Rightarrow> (df1, Inl e) | Inr base_temps \<Rightarrow>
           case tb_loop df1 tmed nf base_temps [] of
             (df2, Inl e) \<Rightarrow> (df2, Inl e)
           | (df2, Inr results) \<Rightarrow>
               (case idxmin (map (\<lambda>r. Some (QME r)) results) of
                  Inl e \<Rightarrow> (df2, Inl e)
                | Inr i \<Rightarrow> (df2, Inr (results, results ! i))))"

text \<open>
  The module-level logic after a successful upload: any message from validation is
  displayed and nothing else happens; with no message \<^verbatim>\<open>calculate_tb\<close> runs on a copy
  of the validated frame, outside any \<^verbatim>\<open>try\<close>.
\<close>

datatype outcome = Blocked "message list" | Fault error | Shown "tb_row list" tb_row

definition app_main ::
  "(bool \<Rightarrow> string \<Rightarrow> int option) \<Rightarrow> (string \<Rightarrow> real option) \<Rightarrow> dataframe \<Rightarrow> outcome" where
  "app_main parse_date parse_num data =
     (let (validated_data, errors) = validate_data parse_date parse_num data
      in if errors \<noteq> [] then Blocked errors
         else (case snd (calculate_tb validated_data) of
                 Inl e \<Rightarrow> Fault e
               | Inr (results_df, best_tb) \<Rightarrow> Shown results_df best_tb))"

section \<open>app\_agrometeorologia\_excel.py\<close>

text \<open>\<^verbatim>\<open>calcular_tmed(tmin, tmax) = (tmin + tmax) / 2\<close>, element by element.\<close>

definition calcular_tmed :: "f64 list \<Rightarrow> f64 list \<Rightarrow> f64 list" where
  "calcular_tmed tmin tmax = map2 (\<lambda>a b. f64_div (f64_add a b) 2) tmin tmax"

text \<open>\<^verbatim>\<open>calcular_std(tmed, tb) = np.maximum(tmed - tb, 0)\<close>.\<close>

definition calcular_std :: "f64 list \<Rightarrow> real \<Rightarrow> f64 list" where
  "calcular_std tmed tb = map (\<lambda>v. np_maximum (f64_sub v tb) 0) tmed"

text \<open>\<^verbatim>\<open>calcular_sta(std) = np.cumsum(std)\<close>, called on the Series \<open>std\<close>.\<close>

definition calcular_sta :: "f64 list \<Rightarrow> f64 list" where
  "calcular_sta std = cumsum std"

text \<open>
  \<^verbatim>\<open>realizar_regressao(x, y, inicio_emergencia)\<close> returns
  \<^verbatim>\<open>(coef, intercept, r2, x_reg, y_pred)\<close>, with \<^verbatim>\<open>None\<close> in four places and 0 for
  \<^verbatim>\<open>r2\<close> when it does not fit. \<^verbatim>\<open>estimar_tb_otimo\<close> passes a pandas Series for \<open>x\<close>, and
  \<^verbatim>\<open>x[inicio_emergencia:].reshape(-1, 1)\<close> is an attribute error on a pandas that has no
  \<^verbatim>\<open>Series.reshape\<close>: \<open>series_reshape\<close> tells whether the installed pandas has it.
\<close>

type_synonym regressao = "real option \<times> real option \<times> f64 \<times> real list option \<times> real list option"

definition regressao_mask :: "f64 list \<Rightarrow> f64 list \<Rightarrow> bool list" where
  "regressao_mask x_reg y_reg = map2 (\<lambda>a b. \<not> (a = None \<or> b = None)) x_reg y_reg"

definition select_mask :: "f64 list \<Rightarrow> bool list \<Rightarrow> f64 list" where
  "select_mask xs keep = map fst (filter snd (zip xs keep))"

definition realizar_regressao :: "bool \<Rightarrow> f64 list \<Rightarrow> f64 list \<Rightarrow> nat \<Rightarrow> error + regressao" where
  "realizar_regressao series_reshape x y inicio_emergencia =
     (if length x \<le> inicio_emergencia then Inr (None, None, Some 0, None, None)
      else if \<not> series_reshape then Inl AttributeError
      else
        let x_reg = drop inicio_emergencia x;
            y_reg = drop inicio_emergencia y
        in if length x_reg \<noteq> length y_reg then Inl ValueError
           else
             let keep = regressao_mask x_reg y_reg
             in if length (filter id keep) < 2 then Inr (None, None, Some 0, None, None)
                else
                  let x_reg_clean = select_mask x_reg keep;
                      y_reg_clean = dropna (select_mask y_reg keep)
                  in case LinearRegression_fit x_reg_clean y_reg_clean of
                       Inl e \<Rightarrow> Inl e
                     | Inr reg \<Rightarrow>
                         (case predict reg x_reg_clean of
                            Inl e \<Rightarrow> Inl e
                          | Inr y_pred \<Rightarrow>
                              Inr (Some (fst reg), Some (snd reg), r2_score y_reg_clean y_pred,
                                   Some (dropna x_reg_clean), Some y_pred)))"

record resultado =
  res_Tb :: real
  res_R2 :: f64
  Coeficiente_Angular :: real
  Intercepto :: real

text \<open>The body of the \<^verbatim>\<open>try\<close> in \<^verbatim>\<open>estimar_tb_otimo\<close>, for one \<open>tb\<close>.\<close>

definition regressao_tb ::
  "(string \<Rightarrow> real option) \<Rightarrow> bool \<Rightarrow> dataframe \<Rightarrow> string \<Rightarrow> string \<Rightarrow> string \<Rightarrow> nat \<Rightarrow> real \<Rightarrow> error + regressao" where
  "regressao_tb parse_num series_reshape df col_tmin col_tmax col_nf inicio_emergencia tb =
     (case df col_tmin of None \<Rightarrow> Inl KeyError | Some tmin_cells \<Rightarrow>
      case df col_tmax of None \<Rightarrow> Inl KeyError | Some tmax_cells \<Rightarrow>
        let tmed = calcular_tmed (map (\<lambda>c. cell_f64 (to_numeric parse_num c)) tmin_cells)
                                 (map (\<lambda>c. cell_f64 (to_numeric parse_num c)) tmax_cells);
            std = calcular_std tmed tb;
            sta = calcular_sta std
        in case df col_nf of None \<Rightarrow> Inl KeyError | Some nf_cells \<Rightarrow>
             realizar_regressao series_reshape sta
               (map (\<lambda>c. cell_f64 (to_numeric parse_num c)) nf_cells) inicio_emergencia)"

text \<open>The row appended for \<open>tb\<close>: from the regression, or the row of the \<^verbatim>\<open>except\<close> branch.\<close>

definition linha_resultado :: "real \<Rightarrow> error + regressao \<Rightarrow> resultado" where
  "linha_resultado tb r =
     (case r of
        Inl e \<Rightarrow> \<lparr>res_Tb = tb, res_R2 = Some 0, Coeficiente_Angular = 0, Intercepto = 0\<rparr>
      | Inr (coef, intercept, r2, x_reg, y_pred) \<Rightarrow>
          \<lparr>res_Tb = tb, res_R2 = r2,
           Coeficiente_Angular = (case coef of None \<Rightarrow> 0 | Some c \<Rightarrow> c),
           Intercepto = (case intercept of None \<Rightarrow> 0 | Some c \<Rightarrow> c)\<rparr>)"

definition estimar_tb_otimo ::
  "(string \<Rightarrow> real option) \<Rightarrow> bool \<Rightarrow> dataframe \<Rightarrow> real list \<Rightarrow> string \<Rightarrow> string \<Rightarrow> string \<Rightarrow> nat \<Rightarrow> resultado list" where
  "estimar_tb_otimo parse_num series_reshape df tb_range col_tmin col_tmax col_nf inicio_emergencia =
     map (\<lambda>tb. linha_resultado tb
                 (regressao_tb parse_num series_reshape df col_tmin col_tmax col_nf inicio_emergencia tb))
         tb_range"

text \<open>
  The analysis of \<^verbatim>\<open>main\<close> (the \<^verbatim>\<open>try\<close> block behind the button): the candidates, the
  table and the row of the best candidate; \<^verbatim>\<open>tb_min\<close>, \<^verbatim>\<open>tb_max\<close> and \<^verbatim>\<open>tb_step\<close> are the
  doubles of the number inputs, and \<^verbatim>\<open>tb_max + tb_step\<close> is their double sum. An exception
  is caught and displayed by \<^verbatim>\<open>main\<close>; an empty table has no column \<^verbatim>\<open>R\<^sup>2\<close> to select
  from.
\<close>

definition main_analise ::
  "(string \<Rightarrow> real option) \<Rightarrow> bool \<Rightarrow> dataframe \<Rightarrow> real \<Rightarrow> real \<Rightarrow> real \<Rightarrow> string \<Rightarrow> string \<Rightarrow> string \<Rightarrow> nat
     \<Rightarrow> error + resultado list \<times> resultado" where
  "main_analise parse_num series_reshape df tb_min tb_max tb_step col_tmin col_tmax col_nf inicio_emergencia =
     (case np_arange tb_min (float64 (tb_max + tb_step)) tb_step of
        Inl e \<Rightarrow> Inl e
      | Inr tb_range \<Rightarrow>
          let resultados = estimar_tb_otimo parse_num series_reshape df tb_range
                             col_tmin col_tmax col_nf inicio_emergencia
          in if resultados = [] then Inl KeyError
             else (case idxmax (map res_R2 resultados) of
                     Inl e \<Rightarrow> Inl e
                   | Inr tb_otimo_idx \<Rightarrow> Inr (resultados, resultados ! tb_otimo_idx)))"

text \<open>Comparison of two cells of the same day: both missing, or both present and ordered.\<close>

definition f64_le :: "f64 \<Rightarrow> f64 \<Rightarrow> bool" where
  "f64_le a b = (case a of None \<Rightarrow> b = None | Some x \<Rightarrow> (case b of None \<Rightarrow> False | Some y \<Rightarrow> x \<le> y))"

section \<open>Notions used in the statements\<close>

text \<open>Invariant of the scan: what \<open>best\<close> knows about the prefix already seen.\<close>

definition first_best :: "(real \<Rightarrow> real \<Rightarrow> bool) \<Rightarrow> f64 list \<Rightarrow> (nat \<times> real) option \<Rightarrow> bool" where
  "first_best better pre best =
     (case best of
        None \<Rightarrow> (\<forall>j<length pre. pre ! j = None)
      | Some (bi, bv) \<Rightarrow>
          bi < length pre \<and> pre ! bi = Some bv
          \<and> (\<forall>j<length pre. \<forall>w. pre ! j = Some w \<longrightarrow> \<not> better w bv)
          \<and> (\<forall>j<bi. \<forall>w. pre ! j = Some w \<longrightarrow> better bv w))"

definition sample_complete :: "f64 list \<Rightarrow> f64 list \<Rightarrow> bool" where
  "sample_complete nf tmed = list_all (\<lambda>v. v \<noteq> None) (sta_for_regression nf tmed)"

definition linha_padrao :: "real \<Rightarrow> resultado" where
  "linha_padrao tb = \<lparr>res_Tb = tb, res_R2 = Some 0, Coeficiente_Angular = 0, Intercepto = 0\<rparr>"

definition is_numeric :: "(string \<Rightarrow> real option) \<Rightarrow> cell \<Rightarrow> bool" where
  "is_numeric parse_num c = (cell_f64 (to_numeric parse_num c) \<noteq> None)"

definition pontos_validos ::
  "(string \<Rightarrow> real option) \<Rightarrow> dataframe \<Rightarrow> string \<Rightarrow> string \<Rightarrow> string \<Rightarrow> nat \<Rightarrow> nat" where
  "pontos_validos parse_num df col_tmin col_tmax col_nf inicio_emergencia =
     (case df col_tmin of None \<Rightarrow> 0 | Some tmin_cells \<Rightarrow>
      case df col_tmax of None \<Rightarrow> 0 | Some tmax_cells \<Rightarrow>
      case df col_nf of None \<Rightarrow> 0 | Some nf_cells \<Rightarrow>
        length (filter (\<lambda>(a, b, n). is_numeric parse_num a \<and> is_numeric parse_num b \<and> is_numeric parse_num n)
                       (drop inicio_emergencia (zip tmin_cells (zip tmax_cells nf_cells)))))"

definition amostra :: "f64 list \<Rightarrow> f64 list \<Rightarrow> nat \<Rightarrow> (real \<times> real) list" where
  "amostra x y inicio_emergencia =
     concat (map (\<lambda>(a, b). case a of None \<Rightarrow> [] | Some v \<Rightarrow> (case b of None \<Rightarrow> [] | Some w \<Rightarrow> [(v, w)]))
                 (drop inicio_emergencia (zip x y)))"


text \<open>
  Two tables for the examples: the five-day scenario of the specification (leaf counts on
  days 2, 4 and 5), and a table on which no leaf count was measured.
\<close>

definition scenario :: dataframe where
  "scenario =
     [''Data'' \<mapsto> [Stamp 1, Stamp 2, Stamp 3, Stamp 4, Stamp 5],
      ''Tmin'' \<mapsto> [Num 10, Num 12, Num 14, Num 16, Num 18],
      ''Tmax'' \<mapsto> [Num 20, Num 22, Num 24, Num 26, Num 28],
      ''NF'' \<mapsto> [Missing, Num 2, Missing, Num 5, Num 8]]"

definition no_leaf_counts :: dataframe where
  "no_leaf_counts =
     [''Data'' \<mapsto> [Stamp 1, Stamp 2],
      ''Tmin'' \<mapsto> [Num 10, Num 12],
      ''Tmax'' \<mapsto> [Num 20, Num 22],
      ''NF'' \<mapsto> [Missing, Missing]]"

section \<open>Thermal sums\<close>

lemma cumsum_from_length: "length (cumsum_from acc xs) = length xs"
  by (induction acc xs rule: cumsum_from.induct) simp_all

lemma cumsum_from_mono:
  "list_all2 f64_le xs ys \<Longrightarrow> a \<le> b \<Longrightarrow> list_all2 f64_le (cumsum_from a xs) (cumsum_from b ys)"
proof (induction xs ys arbitrary: a b rule: list_all2_induct)
  case Nil
  then show ?case by simp
next
  case (Cons x xs y ys)
  then show ?case
    by (cases x; cases y) (simp_all add: f64_le_def)
qed

lemma calcular_std_mono:
  "tb1 \<le> tb2 \<Longrightarrow> list_all2 f64_le (calcular_std tmed tb2) (calcular_std tmed tb1)"
  by (induction tmed)
     (auto simp: calcular_std_def np_maximum_def f64_sub_def f64_le_def split: option.splits)

lemma tb_STd_mono:
  "tb1 \<le> tb2 \<Longrightarrow> list_all2 f64_le (tb_STd tmed tb2) (tb_STd tmed tb1)"
  by (induction tmed)
     (auto simp: tb_STd_def f64_sub_def f64_le_def split: option.splits)

text \<open>
  Claim C7. On a day whose minimum and maximum temperature are both present, the daily
  thermal sum is \<open>max (Tmed - Tb) 0\<close> with \<open>Tmed = (Tmin + Tmax) / 2\<close>, in
  \<^verbatim>\<open>calcular_std\<close> as in the loop of \<^verbatim>\<open>calculate_tb\<close>, and it is not negative. This
  holds for every candidate, so in particular for \<open>Tb \<ge> 0\<close>.
\<close>

theorem daily_thermal_sum_clamped:
  assumes "i < length tmin" and "i < length tmax" and "tmin ! i = Some a" and "tmax ! i = Some b"
  shows "calcular_std (calcular_tmed tmin tmax) tb ! i = Some (max ((a + b) / 2 - tb) 0)
       \<and> tb_STd (tb_Tmed tmin tmax) tb ! i = Some (max ((a + b) / 2 - tb) 0)
       \<and> 0 \<le> max ((a + b) / 2 - tb) 0"
  using assms
  by (simp add: calcular_std_def calcular_tmed_def tb_STd_def tb_Tmed_def np_maximum_def
                f64_sub_def f64_div_def f64_add_def max_def)

theorem daily_thermal_sum_clamped_witness:
  "(1::nat) < length [Some 10, Some (12::real)] \<and> (1::nat) < length [Some 20, Some (22::real)]
   \<and> [Some 10, Some (12::real)] ! 1 = Some 12 \<and> [Some 20, Some (22::real)] ! 1 = Some 22
   \<and> calcular_std (calcular_tmed [Some 10, Some 12] [Some 20, Some 22]) 18 ! 1 = Some 0
   \<and> tb_STd (tb_Tmed [Some 10, Some 12] [Some 20, Some 22]) 5 ! 1 = Some 12"
  using daily_thermal_sum_clamped [of 1 "[Some 10, Some 12]" "[Some 20, Some 22]" 12 22 18]
        daily_thermal_sum_clamped [of 1 "[Some 10, Some 12]" "[Some 20, Some 22]" 12 22 5]
  by simp

text \<open>
  Claim C8. For candidates \<open>tb1 \<le> tb2\<close> and any column of daily means, the daily thermal
  sum at \<open>tb2\<close> is at most the one at \<open>tb1\<close> on every day, and so is the accumulated
  thermal sum at every position; a day without temperature is missing in both. Both
  programs.
\<close>

theorem thermal_sums_antitone:
  assumes "tb1 \<le> tb2"
  shows "list_all2 f64_le (calcular_std tmed tb2) (calcular_std tmed tb1)
       \<and> list_all2 f64_le (calcular_sta (calcular_std tmed tb2)) (calcular_sta (calcular_std tmed tb1))
       \<and> list_all2 f64_le (tb_STd tmed tb2) (tb_STd tmed tb1)
       \<and> list_all2 f64_le (tb_STa (tb_STd tmed tb2)) (tb_STa (tb_STd tmed tb1))"
  using assms
  by (simp add: calcular_std_mono tb_STd_mono cumsum_from_mono calcular_sta_def tb_STa_def cumsum_def)

theorem thermal_sums_antitone_witness:
  "(5::real) \<le> 10
   \<and> list_all2 f64_le (calcular_std [Some 12, None, Some 7] 10) (calcular_std [Some 12, None, Some 7] 5)
   \<and> list_all2 f64_le (calcular_sta (calcular_std [Some 12, None, Some 7] 10))
                       (calcular_sta (calcular_std [Some 12, None, Some 7] 5))
   \<and> calcular_sta (calcular_std [Some 12, None, Some 7] 10) = [Some 2, None, Some 2]
   \<and> calcular_sta (calcular_std [Some 12, None, Some 7] 5) = [Some 7, None, Some 9]"
  using thermal_sums_antitone [of 5 10 "[Some 12, None, Some 7]"]
  by (simp add: calcular_sta_def calcular_std_def cumsum_def np_maximum_def f64_sub_def)

section \<open>Validation and the frame of the grid search\<close>

lemma to_datetime_cell_coerced:
  "to_datetime_cell q (case to_datetime_cell p c of None \<Rightarrow> Missing | Some d \<Rightarrow> d)
     = Some (case to_datetime_cell p c of None \<Rightarrow> Missing | Some d \<Rightarrow> d)"
  by (cases c) (simp_all add: to_datetime_cell_def split: option.splits)

lemma to_datetime_raise_coerced:
  "to_datetime_raise q (to_datetime_coerce p cells) = Inr (to_datetime_coerce p cells)"
proof (induction cells)
  case Nil
  then show ?case by (simp add: to_datetime_coerce_def)
next
  case (Cons c cells)
  then show ?case
    using to_datetime_cell_coerced [of q p c] by (simp add: to_datetime_coerce_def)
qed

lemma to_datetime_coerce_idem:
  "to_datetime_coerce q (to_datetime_coerce p cells) = to_datetime_coerce p cells"
  using to_datetime_cell_coerced [of q p]
  by (induction cells) (simp_all add: to_datetime_coerce_def)

lemma to_numeric_idem: "to_numeric pn (to_numeric pn c) = to_numeric pn c"
  by (cases c) (simp_all add: to_numeric_def split: option.splits)

lemma convert_data_present:
  "df ''Data'' = Some d \<Longrightarrow>
   convert_data pd df = (df(''Data'' \<mapsto> to_datetime_coerce (pd True) d), [])"
  by (simp add: convert_data_def Let_def to_datetime_raise_coerced)

lemma validate_data_present:
  assumes "df ''Data'' = Some d" and "df ''Tmin'' = Some a" and "df ''Tmax'' = Some b"
    and "df ''NF'' = Some n"
  shows "validate_data pd pn df =
           (df(''Data'' \<mapsto> to_datetime_coerce (pd True) d,
               ''Tmin'' \<mapsto> map (to_numeric pn) a,
               ''Tmax'' \<mapsto> map (to_numeric pn) b,
               ''NF'' \<mapsto> map (to_numeric pn) n),
            (if tmin_gt_tmax (map (to_numeric pn) a) (map (to_numeric pn) b) then [TminAboveTmax] else [])
            @ (if diff_negative (dropna (map cell_f64 (map (to_numeric pn) n))) then [NFDecrease] else []))"
  using assms
  by (simp add: validate_data_def required_cols_def convert_data_present coerce_col_def)

lemma validate_data_absent:
  assumes "df ''Data'' = None \<or> df ''Tmin'' = None \<or> df ''Tmax'' = None \<or> df ''NF'' = None"
  shows "validate_data pd pn df = (df, [MissingColumns (filter (\<lambda>col. df col = None) required_cols)])"
  using assms
  by (auto simp add: validate_data_def required_cols_def)

lemma validate_data_idem:
  "fst (validate_data pd pn (fst (validate_data pd pn df))) = fst (validate_data pd pn df)"
proof (cases "df ''Data'' = None \<or> df ''Tmin'' = None \<or> df ''Tmax'' = None \<or> df ''NF'' = None")
  case True
  then show ?thesis by (simp add: validate_data_absent)
next
  case False
  then obtain d a b n where p: "df ''Data'' = Some d" "df ''Tmin'' = Some a" "df ''Tmax'' = Some b"
    "df ''NF'' = Some n" by auto
  let ?df = "df(''Data'' \<mapsto> to_datetime_coerce (pd True) d,
               ''Tmin'' \<mapsto> map (to_numeric pn) a,
               ''Tmax'' \<mapsto> map (to_numeric pn) b,
               ''NF'' \<mapsto> map (to_numeric pn) n)"
  have q: "?df ''Data'' = Some (to_datetime_coerce (pd True) d)"
    "?df ''Tmin'' = Some (map (to_numeric pn) a)"
    "?df ''Tmax'' = Some (map (to_numeric pn) b)"
    "?df ''NF'' = Some (map (to_numeric pn) n)" by simp_all
  show ?thesis
    unfolding validate_data_present [OF p] fst_conv validate_data_present [OF q]
    by (simp add: to_datetime_coerce_idem to_numeric_idem comp_def)
qed


lemma tb_iteration_frame:
  "c \<noteq> ''STd'' \<Longrightarrow> c \<noteq> ''STa'' \<Longrightarrow> fst (tb_iteration df tmed nf tb) c = df c"
  by (simp add: tb_iteration_def Let_def)

lemma tb_loop_frame:
  "c \<noteq> ''STd'' \<Longrightarrow> c \<noteq> ''STa'' \<Longrightarrow> fst (tb_loop df tmed nf tbs results) c = df c"
proof (induction tbs arbitrary: df results)
  case Nil
  then show ?case by simp
next
  case (Cons tb tbs)
  obtain df' r where it: "tb_iteration df tmed nf tb = (df', r)" by (cases "tb_iteration df tmed nf tb")
  have "df' c = df c" using tb_iteration_frame [OF Cons.prems, of df tmed nf tb] it by simp
  then show ?case using Cons it by (cases r) simp_all
qed

lemma calculate_tb_frame:
  assumes "c \<noteq> ''Tmed''" and "c \<noteq> ''STd''" and "c \<noteq> ''STa''"
  shows "fst (calculate_tb df) c = df c"
proof -
  have loop: "fst (tb_loop (df(''Tmed'' \<mapsto> v)) tmed nf tbs []) c = df c" for v tmed nf tbs
    using tb_loop_frame [OF assms(2,3)] assms(1) by simp
  have loop2: "tb_loop (df(''Tmed'' \<mapsto> v)) tmed nf tbs [] = (df2, r) \<Longrightarrow> df2 c = df c" for v tmed nf tbs df2 r
    using loop [of v tmed nf tbs] by simp
  show ?thesis
    using assms(1)
    by (auto simp: calculate_tb_def Let_def dest: loop2 split: option.splits sum.splits prod.splits)
qed

section \<open>Selection of the best row\<close>

lemma first_best_step_None:
  "first_best better pre best \<Longrightarrow> first_best better (pre @ [None]) best"
  by (auto simp: first_best_def nth_append less_Suc_eq split: option.splits)

lemma first_best_step_first:
  "first_best better pre None \<Longrightarrow> \<not> better x x \<Longrightarrow> first_best better (pre @ [Some x]) (Some (length pre, x))"
  by (auto simp: first_best_def nth_append less_Suc_eq split: option.splits)

lemma idx_scan_lt:
  "first_best (<) pre best \<Longrightarrow> first_best (<) (pre @ xs) (idx_scan (<) best (length pre) xs)"
proof (induction xs arbitrary: pre best)
  case Nil
  then show ?case by simp
next
  case (Cons x xs)
  show ?case
  proof (cases x)
    case None
    have "first_best (<) (pre @ [None]) best" using Cons.prems by (rule first_best_step_None)
    from Cons.IH [OF this] show ?thesis using None by simp
  next
    case (Some v)
    show ?thesis
    proof (cases best)
      case None
      have "first_best (<) (pre @ [Some v]) (Some (length pre, v))"
        using Cons.prems None first_best_step_first [of "(<)" pre v] by simp
      from Cons.IH [OF this] show ?thesis using None Some by simp
    next
      case (Some b)
      obtain bi bv where b: "b = (bi, bv)" by (cases b)
      show ?thesis
      proof (cases "v < bv")
        case True
        have "first_best (<) (pre @ [Some v]) (Some (length pre, v))"
          using Cons.prems Some b True
          by (auto simp: first_best_def nth_append less_Suc_eq)
        from Cons.IH [OF this] show ?thesis using Some b True \<open>x = Some v\<close> by simp
      next
        case False
        have "first_best (<) (pre @ [Some v]) (Some (bi, bv))"
          using Cons.prems Some b False
          by (auto simp: first_best_def nth_append less_Suc_eq)
        from Cons.IH [OF this] show ?thesis using Some b False \<open>x = Some v\<close> by simp
      qed
    qed
  qed
qed




lemma idxmin_error: "idxmin xs = Inl e \<Longrightarrow> \<forall>j<length xs. xs ! j = None"
proof -
  assume a: "idxmin xs = Inl e"
  have "first_best (<) [] None" by (simp add: first_best_def)
  from idx_scan_lt [OF this, of xs] have fb: "first_best (<) xs (idx_scan (<) None 0 xs)" by simp
  from a have "idx_scan (<) None 0 xs = None" by (auto simp: idxmin_def split: option.splits)
  with fb show ?thesis by (simp add: first_best_def)
qed


section \<open>The loop of calculate\_tb\<close>

lemma cumsum_from_none: "map (\<lambda>v. v = None) (cumsum_from acc xs) = map (\<lambda>v. v = None) xs"
  by (induction acc xs rule: cumsum_from.induct) simp_all

lemma tb_STd_none: "map (\<lambda>v. v = None) (tb_STd tmed tb) = map (\<lambda>v. v = None) tmed"
  by (induction tmed) (auto simp: tb_STd_def f64_sub_def split: option.splits)

lemma calcular_std_none: "map (\<lambda>v. v = None) (calcular_std tmed tb) = map (\<lambda>v. v = None) tmed"
  by (induction tmed) (auto simp: calcular_std_def np_maximum_def f64_sub_def split: option.splits)

lemma tb_STa_none: "map (\<lambda>v. v = None) (tb_STa (tb_STd tmed tb)) = map (\<lambda>v. v = None) tmed"
  by (simp add: tb_STa_def cumsum_def cumsum_from_none tb_STd_none)

lemma calcular_sta_none:
  "map (\<lambda>v. v = None) (calcular_sta (calcular_std tmed tb)) = map (\<lambda>v. v = None) tmed"
  by (simp add: calcular_sta_def cumsum_def cumsum_from_none calcular_std_none)

lemma sta_for_regression_none:
  "map (\<lambda>v. v = None) sta = map (\<lambda>v. v = None) sta' \<Longrightarrow>
   map (\<lambda>v. v = None) (sta_for_regression nf sta) = map (\<lambda>v. v = None) (sta_for_regression nf sta')"
proof (induction nf arbitrary: sta sta')
  case Nil
  then show ?case by (simp add: sta_for_regression_def)
next
  case (Cons n nf)
  show ?case
  proof (cases sta)
    case Nil
    then show ?thesis using Cons.prems by (simp add: sta_for_regression_def)
  next
    case (Cons s ss)
    then obtain s' ss' where s': "sta' = s' # ss'" using Cons.prems by (cases sta') auto
    have "map (\<lambda>v. v = None) (sta_for_regression nf ss) = map (\<lambda>v. v = None) (sta_for_regression nf ss')"
      using Cons.IH [of ss ss'] Cons.prems Cons s' by simp
    then show ?thesis using Cons.prems Cons s' by (simp add: sta_for_regression_def)
  qed
qed

lemma list_all_present_pattern:
  "list_all (\<lambda>v. v \<noteq> None) X = list_all Not (map (\<lambda>v. v = None) X)"
  by (induction X) simp_all

lemma sample_complete_sta:
  "list_all (\<lambda>v. v \<noteq> None) (sta_for_regression nf (tb_STa (tb_STd tmed tb))) = sample_complete nf tmed"
  unfolding sample_complete_def list_all_present_pattern
  using sta_for_regression_none [OF tb_STa_none] by simp

lemma all_present_Some: "list_all (\<lambda>v. v \<noteq> None) X \<Longrightarrow> \<exists>xs. all_present X = Some xs \<and> length xs = length X"
  by (induction X rule: all_present.induct) auto

lemma all_present_None: "\<not> list_all (\<lambda>v. v \<noteq> None) X \<Longrightarrow> all_present X = None"
  by (induction X rule: all_present.induct) (auto split: option.splits)

lemma all_present_length: "all_present X = Some xs \<Longrightarrow> length xs = length X"
  by (induction X arbitrary: xs rule: all_present.induct) (auto split: option.splits)

lemma sta_for_regression_length:
  "length nf \<le> length sta \<Longrightarrow> length (sta_for_regression nf sta) = length (dropna nf)"
proof (induction nf arbitrary: sta)
  case Nil
  then show ?case by (simp add: sta_for_regression_def)
next
  case (Cons n nf)
  then obtain s ss where s: "sta = s # ss" by (cases sta) auto
  with Cons have "length (sta_for_regression nf ss) = length (dropna nf)" by simp
  then show ?case using s by (cases n) (simp_all add: sta_for_regression_def)
qed

lemma tb_sta_length: "length (tb_STa (tb_STd tmed tb)) = length tmed"
  by (simp add: tb_STa_def cumsum_def cumsum_from_length tb_STd_def)

lemma tb_iteration_succeeds:
  assumes "sample_complete nf tmed" and "dropna nf \<noteq> []" and "length nf \<le> length tmed"
  shows "\<exists>row. snd (tb_iteration df tmed nf tb) = Inr row \<and> Tb row = tb"
proof -
  let ?X = "sta_for_regression nf (tb_STa (tb_STd tmed tb))"
  have "list_all (\<lambda>v. v \<noteq> None) ?X" using assms(1) sample_complete_sta [of nf tmed tb] by blast
  from all_present_Some [OF this] obtain xs where xs: "all_present ?X = Some xs" "length xs = length ?X"
    by blast
  have len: "length ?X = length (dropna nf)"
    using assms(3) by (simp add: sta_for_regression_length tb_sta_length)
  have "xs \<noteq> []" using xs(2) len assms(2) by auto
  then show ?thesis
    using xs len
    by (simp add: tb_iteration_def Let_def LinearRegression_fit_def predict_def)
qed

lemma tb_iteration_fails:
  assumes "\<not> sample_complete nf tmed \<or> dropna nf = []" and "length nf \<le> length tmed"
  shows "snd (tb_iteration df tmed nf tb) = Inl ValueError"
proof -
  let ?X = "sta_for_regression nf (tb_STa (tb_STd tmed tb))"
  have len: "length ?X = length (dropna nf)"
    using assms(2) by (simp add: sta_for_regression_length tb_sta_length)
  show ?thesis
  proof (cases "sample_complete nf tmed")
    case False
    then have "\<not> list_all (\<lambda>v. v \<noteq> None) ?X" using sample_complete_sta [of nf tmed tb] by blast
    then have "all_present ?X = None" by (rule all_present_None)
    then show ?thesis by (simp add: tb_iteration_def Let_def LinearRegression_fit_def)
  next
    case True
    then have e: "dropna nf = []" using assms(1) by simp
    then have "?X = []" using len by simp
    then show ?thesis by (simp add: tb_iteration_def Let_def LinearRegression_fit_def)
  qed
qed

lemma tb_iteration_Tb: "snd (tb_iteration df tmed nf tb) = Inr row \<Longrightarrow> Tb row = tb"
  by (auto simp: tb_iteration_def Let_def split: sum.splits)

lemma tb_loop_rows:
  "tb_loop df tmed nf tbs results = (df', Inr res) \<Longrightarrow> \<exists>rows. res = results @ rows \<and> map Tb rows = tbs"
proof (induction tbs arbitrary: df results)
  case Nil
  then show ?case by simp
next
  case (Cons tb tbs)
  obtain df1 r where it: "tb_iteration df tmed nf tb = (df1, r)" by (cases "tb_iteration df tmed nf tb")
  show ?case
  proof (cases r)
    case (Inl e)
    then show ?thesis using Cons.prems it by simp
  next
    case (Inr row)
    then have tb: "Tb row = tb" using tb_iteration_Tb [of df tmed nf tb row] it by simp
    from Cons.prems it Inr have "tb_loop df1 tmed nf tbs (results @ [row]) = (df', Inr res)" by simp
    from Cons.IH [OF this] obtain rows where "res = (results @ [row]) @ rows" "map Tb rows = tbs" by blast
    then show ?thesis using tb by (intro exI [of _ "row # rows"]) simp
  qed
qed

lemma tb_loop_succeeds:
  assumes "sample_complete nf tmed" and "dropna nf \<noteq> []" and "length nf \<le> length tmed"
  shows "\<exists>df' res. tb_loop df tmed nf tbs results = (df', Inr res)"
proof (induction tbs arbitrary: df results)
  case Nil
  then show ?case by simp
next
  case (Cons tb tbs)
  obtain df1 r where it: "tb_iteration df tmed nf tb = (df1, r)" by (cases "tb_iteration df tmed nf tb")
  from tb_iteration_succeeds [OF assms, of df tb] it obtain row where "r = Inr row" by auto
  then show ?case using it Cons.IH [of df1 "results @ [row]"] by simp
qed

lemma tb_loop_fails:
  assumes "\<not> sample_complete nf tmed \<or> dropna nf = []" and "length nf \<le> length tmed"
  shows "snd (tb_loop df tmed nf (tb # tbs) results) = Inl ValueError"
proof -
  obtain df1 r where it: "tb_iteration df tmed nf tb = (df1, r)" by (cases "tb_iteration df tmed nf tb")
  from tb_iteration_fails [OF assms, of df tb] it have "r = Inl ValueError" by simp
  then show ?thesis using it by simp
qed

lemma binade_numeral:
  "binade (numeral k) x =
     (if 2 \<le> x then binade (pred_numeral k) (x / 2) + 1
      else if x < 1 then binade (pred_numeral k) (2 * x) - 1 else 0)"
  by (simp add: numeral_eq_Suc)

lemmas float64_eval = float64_def binade_numeral pow2_def round_half_even_def Let_def

lemma base_temps: "np_arange 0 20.5 0.5 = Inr (map (\<lambda>i. real i / 2) [0..<41])"
  by (simp add: np_arange_def float64_eval upt_rec)

lemma base_temps_normal: "np_arange 0 (41 / 2) (1 / 2) = Inr (map (\<lambda>i. real i / 2) [0..<41])"
  using base_temps by simp

lemma base_temps_sorted: "sorted_wrt (<) (map (\<lambda>i. start + real i * step) [0..<n])" if "0 < step"
  using that by (simp add: sorted_wrt_iff_nth_less)


lemma numeric_col_ok: "list_all is_number cells \<Longrightarrow> numeric_col cells = Inr (map cell_f64 cells)"
  by (simp add: numeric_col_def)

lemma tb_Tmed_length: "length (tb_Tmed a b) = min (length a) (length b)"
  by (simp add: tb_Tmed_def)

lemma calculate_tb_succeeds:
  assumes "df ''Tmin'' = Some a" and "df ''Tmax'' = Some b" and "df ''NF'' = Some n"
    and "list_all is_number a" and "list_all is_number b" and "list_all is_number n"
    and "length a = length n" and "length b = length n"
    and "dropna (map cell_f64 n) \<noteq> []"
    and "sample_complete (map cell_f64 n) (tb_Tmed (map cell_f64 a) (map cell_f64 b))"
  shows "\<exists>df' results best. calculate_tb df = (df', Inr (results, best))"
proof -
  let ?tmed = "tb_Tmed (map cell_f64 a) (map cell_f64 b)"
  let ?nf = "map cell_f64 n"
  let ?df1 = "df(''Tmed'' \<mapsto> map f64_cell ?tmed)"
  have len: "length ?nf \<le> length ?tmed" using assms(7,8) by (simp add: tb_Tmed_length)
  from tb_loop_succeeds [OF assms(10) assms(9) len, of ?df1 "map (\<lambda>i. real i / 2) [0..<41]" "[]"]
  obtain df2 res where loop: "tb_loop ?df1 ?tmed ?nf (map (\<lambda>i. real i / 2) [0..<41]) [] = (df2, Inr res)"
    by blast
  from tb_loop_rows [OF loop] have "map Tb res = map (\<lambda>i. real i / 2) [0..<41]" by auto
  then have "length res = 41" using length_map [of Tb res] by simp
  then have ne: "res \<noteq> []" by auto
  have "\<exists>i. idxmin (map (\<lambda>r. Some (QME r)) res) = Inr i"
  proof (cases "idxmin (map (\<lambda>r. Some (QME r)) res)")
    case (Inl e)
    from idxmin_error [OF this] ne show ?thesis by (cases res) auto
  next
    case (Inr i)
    then show ?thesis by blast
  qed
  then obtain i where idx: "idxmin (map (\<lambda>r. Some (QME r)) res) = Inr i" by blast
  show ?thesis
    using assms(1-3) loop idx
    by (simp add: calculate_tb_def Let_def base_temps_normal numeric_col_ok [OF assms(4)]
                  numeric_col_ok [OF assms(5)] numeric_col_ok [OF assms(6)])
qed

lemma calculate_tb_fails:
  assumes "df ''Tmin'' = Some a" and "df ''Tmax'' = Some b" and "df ''NF'' = Some n"
    and "list_all is_number a" and "list_all is_number b" and "list_all is_number n"
    and "length a = length n" and "length b = length n"
    and "dropna (map cell_f64 n) = []
         \<or> \<not> sample_complete (map cell_f64 n) (tb_Tmed (map cell_f64 a) (map cell_f64 b))"
  shows "snd (calculate_tb df) = Inl ValueError"
proof -
  let ?tmed = "tb_Tmed (map cell_f64 a) (map cell_f64 b)"
  let ?nf = "map cell_f64 n"
  let ?df1 = "df(''Tmed'' \<mapsto> map f64_cell ?tmed)"
  have len: "length ?nf \<le> length ?tmed" using assms(7,8) by (simp add: tb_Tmed_length)
  have c: "\<not> sample_complete ?nf ?tmed \<or> dropna ?nf = []" using assms(9) by blast
  have up: "[0..<41] = 0 # [1..<41]" by (simp add: upt_conv_Cons)
  have "snd (tb_loop ?df1 ?tmed ?nf (map (\<lambda>i. real i / 2) [0..<41]) []) = Inl ValueError"
    unfolding up list.map by (rule tb_loop_fails [OF c len])
  then show ?thesis
    using assms(1-3)
    by (auto simp add: calculate_tb_def Let_def base_temps_normal numeric_col_ok [OF assms(4)]
                  numeric_col_ok [OF assms(5)] numeric_col_ok [OF assms(6)] split: prod.splits sum.splits)
qed

section \<open>The regression of the Excel program\<close>


lemma select_mask_length:
  "length xs = length keep \<Longrightarrow> length (select_mask xs keep) = length (filter id keep)"
proof (induction xs keep rule: list_induct2)
  case Nil
  then show ?case by (simp add: select_mask_def)
next
  case (Cons x xs k ks)
  then show ?case by (simp add: select_mask_def)
qed

lemma regressao_mask_length: "length (regressao_mask x y) = min (length x) (length y)"
  by (simp add: regressao_mask_def)

lemma select_mask_x_present:
  "list_all (\<lambda>v. v \<noteq> None) (select_mask x (regressao_mask x y))"
proof (induction x arbitrary: y)
  case Nil
  then show ?case by (simp add: select_mask_def regressao_mask_def)
next
  case (Cons a x)
  show ?case
  proof (cases y)
    case Nil
    then show ?thesis by (simp add: select_mask_def regressao_mask_def)
  next
    case (Cons b ys)
    then show ?thesis using Cons.IH [of ys] by (auto simp: select_mask_def regressao_mask_def)
  qed
qed

lemma select_mask_amostra_x:
  "length x = length y \<Longrightarrow>
   dropna (select_mask x (regressao_mask x y)) = map fst (amostra x y 0)"
proof (induction x y rule: list_induct2)
  case Nil
  then show ?case by (simp add: select_mask_def regressao_mask_def amostra_def)
next
  case (Cons a x b y)
  then show ?case by (cases a; cases b) (simp_all add: select_mask_def regressao_mask_def amostra_def)
qed

lemma select_mask_amostra_y:
  "length x = length y \<Longrightarrow>
   dropna (select_mask y (regressao_mask x y)) = map snd (amostra x y 0)"
proof (induction x y rule: list_induct2)
  case Nil
  then show ?case by (simp add: select_mask_def regressao_mask_def amostra_def)
next
  case (Cons a x b y)
  then show ?case by (cases a; cases b) (simp_all add: select_mask_def regressao_mask_def amostra_def)
qed

lemma amostra_drop: "amostra (drop k x) (drop k y) 0 = amostra x y k"
  by (simp add: amostra_def drop_zip)

lemma all_present_dropna: "all_present X = Some xs \<Longrightarrow> dropna X = xs"
  by (induction X arbitrary: xs rule: all_present.induct) (auto split: option.splits)

lemma all_present_eq_dropna: "list_all (\<lambda>v. v \<noteq> None) X \<Longrightarrow> all_present X = Some (dropna X)"
  by (induction X rule: all_present.induct) auto

lemma dropna_length_present: "list_all (\<lambda>v. v \<noteq> None) X \<Longrightarrow> length (dropna X) = length X"
  by (induction X rule: dropna.induct) auto

lemma mask_count_amostra:
  assumes "length x = length y"
  shows "length (filter id (regressao_mask x y)) = length (amostra x y 0)"
proof -
  have "length (filter id (regressao_mask x y)) = length (select_mask x (regressao_mask x y))"
    using assms by (simp add: select_mask_length regressao_mask_length)
  also have "\<dots> = length (dropna (select_mask x (regressao_mask x y)))"
    by (simp add: dropna_length_present [OF select_mask_x_present])
  also have "\<dots> = length (amostra x y 0)"
    using assms by (simp add: select_mask_amostra_x)
  finally show ?thesis .
qed

lemma realizar_regressao_closed:
  "realizar_regressao sr x y ini =
     (if length x \<le> ini then Inr (None, None, Some 0, None, None)
      else if \<not> sr then Inl AttributeError
      else if length x \<noteq> length y then Inl ValueError
      else if length (amostra x y ini) < 2 then Inr (None, None, Some 0, None, None)
      else let xs = map fst (amostra x y ini);
               ys = map snd (amostra x y ini);
               reg = ols xs ys;
               y_pred = map (\<lambda>v. fst reg * v + snd reg) xs
           in Inr (Some (fst reg), Some (snd reg), r2_score ys y_pred, Some xs, Some y_pred))"
proof (cases "length x \<le> ini \<or> \<not> sr \<or> length x \<noteq> length y")
  case True
  then show ?thesis by (auto simp: realizar_regressao_def Let_def)
next
  case False
  then have gt: "ini < length x" and sr: sr and len: "length x = length y" by auto
  let ?xr = "drop ini x" and ?yr = "drop ini y"
  have lenr: "length ?xr = length ?yr" using len by simp
  let ?keep = "regressao_mask ?xr ?yr"
  have cnt: "length (filter id ?keep) = length (amostra x y ini)"
    using mask_count_amostra [OF lenr] by (simp add: amostra_drop)
  have xs: "dropna (select_mask ?xr ?keep) = map fst (amostra x y ini)"
    using select_mask_amostra_x [OF lenr] by (simp add: amostra_drop)
  have ys: "dropna (select_mask ?yr ?keep) = map snd (amostra x y ini)"
    using select_mask_amostra_y [OF lenr] by (simp add: amostra_drop)
  have ap: "all_present (select_mask ?xr ?keep) = Some (map fst (amostra x y ini))"
    using all_present_eq_dropna [OF select_mask_x_present, of ?xr ?yr] xs by simp
  show ?thesis
  proof (cases "length (amostra x y ini) < 2")
    case True
    then show ?thesis using gt sr lenr len cnt by (simp add: realizar_regressao_def Let_def)
  next
    case False
    then have ne: "amostra x y ini \<noteq> []" by auto
    show ?thesis
      using gt sr lenr len cnt False ne
      by (simp add: realizar_regressao_def Let_def LinearRegression_fit_def predict_def ap xs ys)
  qed
qed





lemma linha_resultado_degenerate:
  "length x = length y \<Longrightarrow> length (amostra x y ini) < 2 \<Longrightarrow>
   linha_resultado tb (realizar_regressao sr x y ini) = linha_padrao tb"
  unfolding realizar_regressao_closed
  by (simp add: linha_resultado_def linha_padrao_def)

lemma linha_resultado_mismatch:
  "length x \<noteq> length y \<Longrightarrow>
   linha_resultado tb (realizar_regressao sr x y ini) = linha_padrao tb"
  unfolding realizar_regressao_closed
  by (simp add: linha_resultado_def linha_padrao_def)

lemma count_filter_drop_cong:
  assumes "length xs = length ys" and "\<And>i. i < length xs \<Longrightarrow> P (xs ! i) = Q (ys ! i)"
  shows "length (filter P (drop k xs)) = length (filter Q (drop k ys))"
proof -
  have "map P xs = map Q ys" using assms by (intro nth_equalityI) simp_all
  then have "map P (drop k xs) = map Q (drop k ys)" by (simp add: drop_map [symmetric])
  moreover have "length (filter P zs) = length (filter id (map P zs))" for P :: "'c \<Rightarrow> bool" and zs
    by (induction zs) simp_all
  ultimately show ?thesis by metis
qed

lemma amostra_length:
  "length (amostra x y ini) = length (filter (\<lambda>(a, b). a \<noteq> None \<and> b \<noteq> None) (drop ini (zip x y)))"
proof -
  have "length (concat (map (\<lambda>(a, b). case a of None \<Rightarrow> [] | Some v \<Rightarrow> (case b of None \<Rightarrow> [] | Some w \<Rightarrow> [(v, w)])) zs))
        = length (filter (\<lambda>(a, b). a \<noteq> None \<and> b \<noteq> None) zs)" for zs :: "(f64 \<times> f64) list"
    by (induction zs) (auto split: option.splits)
  then show ?thesis by (simp add: amostra_def)
qed

lemma calcular_tmed_none:
  "i < length a \<Longrightarrow> i < length b \<Longrightarrow> (calcular_tmed a b ! i = None) = (a ! i = None \<or> b ! i = None)"
  by (auto simp: calcular_tmed_def f64_div_def f64_add_def split: option.splits)

lemma tb_Tmed_none:
  "i < length a \<Longrightarrow> i < length b \<Longrightarrow> (tb_Tmed a b ! i = None) = (a ! i = None \<or> b ! i = None)"
  by (auto simp: tb_Tmed_def f64_div_def f64_add_def split: option.splits)

lemma map_eq_nth: "map f xs = map g ys \<Longrightarrow> i < length xs \<Longrightarrow> f (xs ! i) = g (ys ! i)"
  by (metis length_map nth_map)

lemma calcular_sta_none_nth:
  "i < length tmed \<Longrightarrow> (calcular_sta (calcular_std tmed tb) ! i = None) = (tmed ! i = None)"
proof -
  assume i: "i < length tmed"
  have "length (calcular_sta (calcular_std tmed tb)) = length tmed"
    by (simp add: calcular_sta_def cumsum_def cumsum_from_length calcular_std_def)
  with i map_eq_nth [OF calcular_sta_none, of i tmed tb] show ?thesis by simp
qed

lemma tb_STa_none_nth:
  "i < length tmed \<Longrightarrow> (tb_STa (tb_STd tmed tb) ! i = None) = (tmed ! i = None)"
proof -
  assume i: "i < length tmed"
  with map_eq_nth [OF tb_STa_none, of i tmed tb] show ?thesis by (simp add: tb_sta_length)
qed

lemma calcular_sta_length: "length (calcular_sta (calcular_std (calcular_tmed a b) tb)) = min (length a) (length b)"
  by (simp add: calcular_sta_def cumsum_def cumsum_from_length calcular_std_def calcular_tmed_def)

lemma amostra_pontos:
  assumes "df ct = Some a" and "df cx = Some b" and "df cn = Some n"
    and "min (length a) (length b) = length n"
  shows "length (amostra (calcular_sta (calcular_std (calcular_tmed (map (\<lambda>c. cell_f64 (to_numeric pn c)) a)
                                                                   (map (\<lambda>c. cell_f64 (to_numeric pn c)) b)) tb))
                         (map (\<lambda>c. cell_f64 (to_numeric pn c)) n) ini)
         = pontos_validos pn df ct cx cn ini"
proof -
  let ?a = "map (\<lambda>c. cell_f64 (to_numeric pn c)) a" and ?b = "map (\<lambda>c. cell_f64 (to_numeric pn c)) b"
  let ?n = "map (\<lambda>c. cell_f64 (to_numeric pn c)) n"
  let ?tmed = "calcular_tmed ?a ?b"
  let ?sta = "calcular_sta (calcular_std ?tmed tb)"
  have lt: "length ?tmed = length n" using assms(4) by (simp add: calcular_tmed_def)
  have ls: "length ?sta = length n" using assms(4) by (simp add: calcular_sta_length)
  have la: "length n \<le> length a" and lb: "length n \<le> length b" using assms(4) by auto
  have "length (filter (\<lambda>(s, v). s \<noteq> None \<and> v \<noteq> None) (drop ini (zip ?sta ?n)))
      = length (filter (\<lambda>(a, b, n). is_numeric pn a \<and> is_numeric pn b \<and> is_numeric pn n)
                       (drop ini (zip a (zip b n))))"
  proof (rule count_filter_drop_cong)
    show "length (zip ?sta ?n) = length (zip a (zip b n))" using ls la lb by simp
  next
    fix i assume "i < length (zip ?sta ?n)"
    then have i: "i < length n" using ls by simp
    then have ia: "i < length a" and ib: "i < length b" using la lb by auto
    have "(?sta ! i = None) = (?tmed ! i = None)" using calcular_sta_none_nth [of i ?tmed tb] i lt by simp
    also have "\<dots> = (?a ! i = None \<or> ?b ! i = None)" using calcular_tmed_none [of i ?a ?b] ia ib by simp
    finally have "(?sta ! i = None) = (\<not> is_numeric pn (a ! i) \<or> \<not> is_numeric pn (b ! i))"
      using ia ib by (simp add: is_numeric_def)
    then show "(case zip ?sta ?n ! i of (s, v) \<Rightarrow> s \<noteq> None \<and> v \<noteq> None)
             = (case zip a (zip b n) ! i of (a, b, n) \<Rightarrow> is_numeric pn a \<and> is_numeric pn b \<and> is_numeric pn n)"
      using i ia ib ls by (auto simp: is_numeric_def)
  qed
  then show ?thesis using assms(1-3) by (simp add: amostra_length pontos_validos_def)
qed

lemma regressao_tb_degenerate:
  assumes "pontos_validos pn df ct cx cn ini < 2"
  shows "linha_resultado tb (regressao_tb pn sr df ct cx cn ini tb) = linha_padrao tb"
proof (cases "df ct = None \<or> df cx = None \<or> df cn = None")
  case True
  then show ?thesis
    by (auto simp: regressao_tb_def Let_def linha_resultado_def linha_padrao_def split: option.splits)
next
  case False
  then obtain a b n where p: "df ct = Some a" "df cx = Some b" "df cn = Some n" by auto
  let ?a = "map (\<lambda>c. cell_f64 (to_numeric pn c)) a" and ?b = "map (\<lambda>c. cell_f64 (to_numeric pn c)) b"
  let ?n = "map (\<lambda>c. cell_f64 (to_numeric pn c)) n"
  let ?sta = "calcular_sta (calcular_std (calcular_tmed ?a ?b) tb)"
  have r: "regressao_tb pn sr df ct cx cn ini tb = realizar_regressao sr ?sta ?n ini"
    using p by (simp add: regressao_tb_def Let_def)
  show ?thesis
  proof (cases "length ?sta = length ?n")
    case True
    then have "min (length a) (length b) = length n" by (simp add: calcular_sta_length)
    from amostra_pontos [OF p this, of pn tb ini] assms have "length (amostra ?sta ?n ini) < 2" by simp
    from linha_resultado_degenerate [OF True this] r show ?thesis by simp
  next
    case False
    from linha_resultado_mismatch [OF this] r show ?thesis by simp
  qed
qed

lemma estimar_degenerate:
  assumes "pontos_validos pn df ct cx cn ini < 2"
  shows "estimar_tb_otimo pn sr df tb_range ct cx cn ini = map linha_padrao tb_range"
  using regressao_tb_degenerate [OF assms] by (simp add: estimar_tb_otimo_def)

lemma idx_scan_gt_flat:
  "idx_scan (>) (Some (bi, 0)) i (map (\<lambda>r. Some 0) xs) = Some (bi, 0)"
  by (induction xs arbitrary: i) simp_all

lemma idxmax_flat: "idxmax (map (\<lambda>r. Some 0) (x # xs)) = Inr 0"
  by (simp add: idxmax_def idx_scan_gt_flat)

lemma np_arange_first:
  assumes "np_arange start stop step = Inr tbs" and "tbs \<noteq> []"
  shows "\<exists>rest. tbs = start # rest"
proof -
  let ?n = "nat \<lceil>float64 (float64 (stop - start) / step)\<rceil>"
  let ?f = "\<lambda>i. if i = 0 then start
                 else if i = 1 then float64 (start + step)
                 else float64 (start + float64 (real i * float64 (float64 (start + step) - start)))"
  from assms(1) have t: "tbs = map ?f [0..<?n]"
    by (auto simp: np_arange_def Let_def split: if_splits)
  with assms(2) have "0 < ?n" by auto
  then have "[0..<?n] = 0 # [1..<?n]" using upt_conv_Cons [of 0 ?n] by simp
  then have "tbs = start # map ?f [1..<?n]" using t by simp
  then show ?thesis by blast
qed



text \<open>
  Without that exactness a positive step does not make the candidates distinct: from
  \<open>10\<^sup>1\<^sup>6\<close>, where neighbouring doubles are 2 apart, a step of 1 is absorbed and all
  four candidates up to \<open>10\<^sup>1\<^sup>6 + 2\<close> are \<open>10\<^sup>1\<^sup>6\<close>.
\<close>

lemma absorbed_step_candidates:
  "np_arange (10 ^ 16) (float64 (10 ^ 16 + 2 + 1)) 1 = Inr [10 ^ 16, 10 ^ 16, 10 ^ 16, 10 ^ 16]"
  by (simp add: np_arange_def float64_eval upt_rec)




lemma main_analise_degenerate:
  assumes "pontos_validos pn df ct cx cn ini < 2"
    and "np_arange tb_min (float64 (tb_max + tb_step)) tb_step = Inr tbs" and "tbs \<noteq> []"
  shows "main_analise pn sr df tb_min tb_max tb_step ct cx cn ini
           = Inr (map linha_padrao tbs, linha_padrao tb_min)"
proof -
  from np_arange_first [OF assms(2,3)] obtain rest where tbs: "tbs = tb_min # rest" by blast
  have r2: "map res_R2 (map linha_padrao ts) = map (\<lambda>r. Some 0) ts" for ts
    by (simp add: linha_padrao_def)
  have idx: "idxmax (map res_R2 (map linha_padrao tbs)) = Inr 0"
    unfolding r2 unfolding tbs by (rule idxmax_flat)
  have ne: "map linha_padrao tbs \<noteq> []" unfolding tbs by simp
  have hd: "map linha_padrao tbs ! 0 = linha_padrao tb_min" unfolding tbs by simp
  show ?thesis
    unfolding main_analise_def assms(2) estimar_degenerate [OF assms(1)] Let_def
    using idx ne hd by simp
qed

section \<open>Closed form of the accumulated sum\<close>

lemma cumsum_from_nth:
  "i < length xs \<Longrightarrow>
   cumsum_from acc xs ! i
     = (case xs ! i of None \<Rightarrow> None | Some d \<Rightarrow> Some (acc + sum_list (dropna (take (Suc i) xs))))"
proof (induction acc xs arbitrary: i rule: cumsum_from.induct)
  case (1 acc)
  then show ?case by simp
next
  case (2 acc xs)
  then show ?case by (cases i) (simp_all split: option.splits)
next
  case (3 acc x xs)
  then show ?case by (cases i) (simp_all split: option.splits)
qed

lemma cumsum_nth:
  "i < length xs \<Longrightarrow>
   cumsum xs ! i = (case xs ! i of None \<Rightarrow> None | Some d \<Rightarrow> Some (sum_list (dropna (take (Suc i) xs))))"
  using cumsum_from_nth [of i xs 0] by (simp add: cumsum_def split: option.splits)

lemma tb_STa_nth:
  assumes "i < length tmed"
  shows "tb_STa (tb_STd tmed tb) ! i
           = (case tmed ! i of None \<Rightarrow> None
              | Some t \<Rightarrow> Some (sum_list (dropna (take (Suc i) (tb_STd tmed tb)))))"
proof -
  have l: "i < length (tb_STd tmed tb)" using assms by (simp add: tb_STd_def)
  have "(tb_STd tmed tb ! i = None) = (tmed ! i = None)"
    using assms by (auto simp: tb_STd_def f64_sub_def split: option.splits)
  then show ?thesis using cumsum_nth [OF l] by (auto simp: tb_STa_def split: option.splits)
qed

lemma calcular_sta_nth:
  assumes "i < length tmed"
  shows "calcular_sta (calcular_std tmed tb) ! i
           = (case tmed ! i of None \<Rightarrow> None
              | Some t \<Rightarrow> Some (sum_list (dropna (take (Suc i) (calcular_std tmed tb)))))"
proof -
  have l: "i < length (calcular_std tmed tb)" using assms by (simp add: calcular_std_def)
  have "(calcular_std tmed tb ! i = None) = (tmed ! i = None)"
    using assms by (auto simp: calcular_std_def np_maximum_def f64_sub_def split: option.splits)
  then show ?thesis using cumsum_nth [OF l] by (auto simp: calcular_sta_def split: option.splits)
qed

section \<open>Claims on missing temperatures\<close>

text \<open>
  Claim C10, as the code has it. The accumulated thermal sum is missing on the days whose
  own minimum or maximum temperature is missing, and only on them: on every other day it
  is the sum of the daily thermal sums of the days up to it that have one, a day without
  temperature adding nothing. \<^verbatim>\<open>realizar_regressao\<close> fits the rows, from
  \<^verbatim>\<open>inicio_emergencia\<close> on, on which both the accumulated sum and the leaf count are
  present, so a measurement is dropped for a missing temperature of its own day only.
\<close>

theorem sta_missing_only_on_days_without_temperature:
  assumes "length tmin = length tmax" and "i < length tmin"
  shows "calcular_sta (calcular_std (calcular_tmed tmin tmax) tb) ! i
           = (if tmin ! i = None \<or> tmax ! i = None then None
              else Some (sum_list (dropna (take (Suc i) (calcular_std (calcular_tmed tmin tmax) tb)))))
       \<and> tb_STa (tb_STd (tb_Tmed tmin tmax) tb) ! i
           = (if tmin ! i = None \<or> tmax ! i = None then None
              else Some (sum_list (dropna (take (Suc i) (tb_STd (tb_Tmed tmin tmax) tb)))))
       \<and> (realizar_regressao True x y inicio = Inr (coef, intercept, r2, Some xs, y_pred)
            \<longrightarrow> xs = map fst (amostra x y inicio))"
proof -
  have l1: "i < length (calcular_tmed tmin tmax)" and l2: "i < length (tb_Tmed tmin tmax)"
    using assms by (simp_all add: calcular_tmed_def tb_Tmed_def)
  have n1: "(calcular_tmed tmin tmax ! i = None) = (tmin ! i = None \<or> tmax ! i = None)"
    using assms by (simp add: calcular_tmed_none)
  have n2: "(tb_Tmed tmin tmax ! i = None) = (tmin ! i = None \<or> tmax ! i = None)"
    using assms by (simp add: tb_Tmed_none)
  have a: "calcular_sta (calcular_std (calcular_tmed tmin tmax) tb) ! i
           = (if tmin ! i = None \<or> tmax ! i = None then None
              else Some (sum_list (dropna (take (Suc i) (calcular_std (calcular_tmed tmin tmax) tb)))))"
    using calcular_sta_nth [OF l1, of tb] n1 by (auto split: option.splits)
  have b: "tb_STa (tb_STd (tb_Tmed tmin tmax) tb) ! i
           = (if tmin ! i = None \<or> tmax ! i = None then None
              else Some (sum_list (dropna (take (Suc i) (tb_STd (tb_Tmed tmin tmax) tb)))))"
    using tb_STa_nth [OF l2, of tb] n2 by (auto split: option.splits)
  have c: "realizar_regressao True x y inicio = Inr (coef, intercept, r2, Some xs, y_pred)
            \<longrightarrow> xs = map fst (amostra x y inicio)"
    unfolding realizar_regressao_closed by (auto simp: Let_def split: if_splits)
  from a b c show ?thesis by blast
qed

theorem sta_missing_only_on_days_without_temperature_witness:
  "length [Some 10, None, Some (10::real)] = length [Some 20, Some 20, Some (20::real)]
   \<and> (2::nat) < length [Some 10, None, Some (10::real)]
   \<and> realizar_regressao True [Some 15, None, Some 30] [Some 1, Some 2, Some 3] 0
       = Inr (Some (2 / 15), Some (- 1), Some 1, Some [15, 30], Some [1, 3])
   \<and> calcular_sta (calcular_std (calcular_tmed [Some 10, None, Some 10] [Some 20, Some 20, Some 20]) 0) ! 2
       = Some 30
   \<and> tb_STa (tb_STd (tb_Tmed [Some 10, None, Some 10] [Some 20, Some 20, Some 20]) 0) ! 2 = Some 30
   \<and> [15, 30] = map fst (amostra [Some 15, None, Some 30] [Some 1, Some 2, Some 3] 0)"
proof -
  have r: "realizar_regressao True [Some 15, None, Some 30] [Some 1, Some 2, Some 3] 0
       = Inr (Some (2 / 15), Some (- 1), Some 1, Some [15, 30], Some [1, 3])"
    by (simp add: realizar_regressao_def regressao_mask_def select_mask_def LinearRegression_fit_def
                predict_def r2_score_def ols_def mean_def Let_def power2_eq_square)
  have l: "length [Some 10, None, Some (10::real)] = length [Some 20, Some 20, Some (20::real)]"
    and i: "(2::nat) < length [Some 10, None, Some (10::real)]" by simp_all
  from sta_missing_only_on_days_without_temperature [OF l i, of 0 "[Some 15, None, Some 30]"
      "[Some 1, Some 2, Some 3]" 0 "Some (2 / 15)" "Some (- 1)" "Some 1" "[15, 30]" "Some [1, 3]"] r
  show ?thesis
    by (simp add: calcular_std_def calcular_tmed_def tb_STd_def tb_Tmed_def
                np_maximum_def f64_sub_def f64_div_def f64_add_def)
qed

text \<open>
  The claim as stated fails: after a day without minimum temperature the accumulated sum
  is present again (15, NaN, 30), and the measurement of the third day stays in the sample.
\<close>

theorem sta_after_missing_day_counterexample:
  "calcular_sta (calcular_std (calcular_tmed [Some 10, None, Some 10] [Some 20, Some 20, Some 20]) 0)
     = [Some 15, None, Some 30]
   \<and> tb_STa (tb_STd (tb_Tmed [Some 10, None, Some 10] [Some 20, Some 20, Some 20]) 0)
     = [Some 15, None, Some 30]
   \<and> realizar_regressao True [Some 15, None, Some 30] [Some 1, Some 2, Some 3] 0
     = Inr (Some (2 / 15), Some (- 1), Some 1, Some [15, 30], Some [1, 3])"
  by (simp add: calcular_sta_def calcular_std_def calcular_tmed_def tb_STa_def tb_STd_def tb_Tmed_def
                cumsum_def np_maximum_def f64_sub_def f64_div_def f64_add_def
                realizar_regressao_def regressao_mask_def select_mask_def LinearRegression_fit_def
                predict_def r2_score_def ols_def mean_def Let_def power2_eq_square)

section \<open>Claims on the selection of the best row\<close>






section \<open>Claims on degenerate samples\<close>

text \<open>
  Claim C1, as the code has it. \<open>pontos_validos\<close> counts the rows, from
  \<^verbatim>\<open>inicio_emergencia\<close> on, whose minimum temperature, maximum temperature and leaf count
  are all numbers; it does not depend on the candidate. With fewer than two such rows (so
  when every leaf count is missing) \<^verbatim>\<open>estimar_tb_otimo\<close> completes with one row per
  candidate, each with \<^verbatim>\<open>R\<^sup>2\<close> 0, slope 0 and intercept 0, and over whatever candidates
  \<^verbatim>\<open>np.arange\<close> gives, one at least, the selection of \<^verbatim>\<open>main\<close> returns the row of the first
  candidate, \<^verbatim>\<open>tb_min\<close>, as the best one, like any other best row.
\<close>

theorem degenerate_candidates_get_placeholder_rows:
  assumes "pontos_validos parse_num df col_tmin col_tmax col_nf inicio < 2"
  shows "estimar_tb_otimo parse_num series_reshape df tb_range col_tmin col_tmax col_nf inicio
           = map linha_padrao tb_range
       \<and> (np_arange tb_min (float64 (tb_max + tb_step)) tb_step = Inr tbs \<and> tbs \<noteq> [] \<longrightarrow>
            main_analise parse_num series_reshape df tb_min tb_max tb_step col_tmin col_tmax col_nf inicio
              = Inr (map linha_padrao tbs, linha_padrao tb_min))"
  using estimar_degenerate [OF assms] main_analise_degenerate [OF assms] by blast

lemma no_leaf_counts_pontos: "pontos_validos (\<lambda>s. None) no_leaf_counts ''Tmin'' ''Tmax'' ''NF'' 0 = 0"
  by (simp add: pontos_validos_def no_leaf_counts_def is_numeric_def to_numeric_def cell_f64_def)

lemma candidates_5_6_half: "np_arange 5 (float64 (6 + 1 / 2)) (1 / 2) = Inr [5, 11 / 2, 6]"
  by (simp add: np_arange_def float64_eval upt_rec)

theorem degenerate_candidates_get_placeholder_rows_witness:
  "pontos_validos (\<lambda>s. None) no_leaf_counts ''Tmin'' ''Tmax'' ''NF'' 0 < 2
   \<and> np_arange 5 (float64 (6 + 1 / 2)) (1 / 2) = Inr [5, 11 / 2, 6] \<and> [5, 11 / 2, 6 :: real] \<noteq> []
   \<and> estimar_tb_otimo (\<lambda>s. None) True no_leaf_counts [5, 11 / 2, 6] ''Tmin'' ''Tmax'' ''NF'' 0
       = [linha_padrao 5, linha_padrao (11 / 2), linha_padrao 6]
   \<and> main_analise (\<lambda>s. None) True no_leaf_counts 5 6 (1 / 2) ''Tmin'' ''Tmax'' ''NF'' 0
       = Inr ([linha_padrao 5, linha_padrao (11 / 2), linha_padrao 6], linha_padrao 5)"
proof -
  have p: "pontos_validos (\<lambda>s. None) no_leaf_counts ''Tmin'' ''Tmax'' ''NF'' 0 < 2"
    by (simp add: no_leaf_counts_pontos)
  have ne: "[5, 11 / 2, 6 :: real] \<noteq> []" by simp
  from degenerate_candidates_get_placeholder_rows
         [OF p, of True "[5, 11 / 2, 6]" 5 6 "1 / 2" "[5, 11 / 2, 6]"] candidates_5_6_half ne
  show ?thesis using p by simp
qed

text \<open>
  The claim as stated fails on a table without any leaf count: \<^verbatim>\<open>main\<close> reports the first
  candidate with \<^verbatim>\<open>R\<^sup>2\<close> 0 as the optimum, and app.py, where \<^verbatim>\<open>calculate_tb\<close> fits an empty
  sample outside any \<^verbatim>\<open>try\<close>, ends in a ValueError.
\<close>

theorem all_leaf_counts_missing_counterexample:
  "main_analise (\<lambda>s. None) True
     [''Data'' \<mapsto> [Stamp 1, Stamp 2], ''Tmin'' \<mapsto> [Num 10, Num 12],
      ''Tmax'' \<mapsto> [Num 20, Num 22], ''NF'' \<mapsto> [Missing, Missing]]
     5 6 (1 / 2) ''Tmin'' ''Tmax'' ''NF'' 0
     = Inr ([\<lparr>res_Tb = 5, res_R2 = Some 0, Coeficiente_Angular = 0, Intercepto = 0\<rparr>,
             \<lparr>res_Tb = 11 / 2, res_R2 = Some 0, Coeficiente_Angular = 0, Intercepto = 0\<rparr>,
             \<lparr>res_Tb = 6, res_R2 = Some 0, Coeficiente_Angular = 0, Intercepto = 0\<rparr>],
            \<lparr>res_Tb = 5, res_R2 = Some 0, Coeficiente_Angular = 0, Intercepto = 0\<rparr>)
   \<and> app_main (\<lambda>dayfirst s. None) (\<lambda>s. None)
       [''Data'' \<mapsto> [Stamp 1, Stamp 2], ''Tmin'' \<mapsto> [Num 10, Num 12],
        ''Tmax'' \<mapsto> [Num 20, Num 22], ''NF'' \<mapsto> [Missing, Missing]]
     = Fault ValueError"
proof -
  let ?df = "[''Data'' \<mapsto> [Stamp 1, Stamp 2], ''Tmin'' \<mapsto> [Num 10, Num 12],
      ''Tmax'' \<mapsto> [Num 20, Num 22], ''NF'' \<mapsto> [Missing, Missing]]"
  have df: "?df = no_leaf_counts" by (simp add: no_leaf_counts_def)
  have p: "pontos_validos (\<lambda>s. None) no_leaf_counts ''Tmin'' ''Tmax'' ''NF'' 0 < 2"
    by (simp add: no_leaf_counts_pontos)
  have ne: "[5, 11 / 2, 6 :: real] \<noteq> []" by simp
  have m: "main_analise (\<lambda>s. None) True no_leaf_counts 5 6 (1 / 2) ''Tmin'' ''Tmax'' ''NF'' 0
     = Inr ([linha_padrao 5, linha_padrao (11 / 2), linha_padrao 6], linha_padrao 5)"
    using main_analise_degenerate [OF p candidates_5_6_half ne, of True] by simp
  have v: "validate_data (\<lambda>dayfirst s. None) (\<lambda>s. None) no_leaf_counts = (no_leaf_counts, [])"
    by (simp add: validate_data_def required_cols_def no_leaf_counts_def convert_data_def
          to_datetime_coerce_def to_datetime_cell_def isnull_def coerce_col_def to_numeric_def
          tmin_gt_tmax_def cell_f64_def)
  have c: "snd (calculate_tb no_leaf_counts) = Inl ValueError"
    by (rule calculate_tb_fails [of _ "[Num 10, Num 12]" "[Num 20, Num 22]" "[Missing, Missing]"])
       (simp_all add: no_leaf_counts_def is_number_def cell_f64_def)
  have a: "app_main (\<lambda>dayfirst s. None) (\<lambda>s. None) no_leaf_counts = Fault ValueError"
    by (simp add: app_main_def v c)
  show ?thesis unfolding df using m a by (simp add: linha_padrao_def)
qed

section \<open>Claims on the candidates\<close>

lemma candidates_decimal_step:
  "np_arange 0 (float64 (float64 (1 / 5) + float64 (1 / 10))) (float64 (1 / 10))
     = Inr [0, 3602879701896397 / 2 ^ 55, 3602879701896397 / 2 ^ 54, 5404319552844596 / 2 ^ 54]"
  by (simp add: np_arange_def float64_eval upt_rec)

lemma candidates_0_3_2: "np_arange 0 (float64 (3 + 2)) 2 = Inr [0, 2, 4]"
  by (simp add: np_arange_def float64_eval upt_rec)

text \<open>
  Claim C6. The code evaluated at \<^verbatim>\<open>tb_min = 0.0\<close>, \<^verbatim>\<open>tb_max = 0.2\<close>, \<^verbatim>\<open>tb_step = 0.1\<close>, the
  doubles nearest to these decimals, on a table without leaf counts. The range is exactly
  two steps, so the claim gives \<open>(tb_max - tb_min) / tb_step + 1 = 3\<close> rows ending at
  \<^verbatim>\<open>tb_max\<close>. The stop \<^verbatim>\<open>tb_max + tb_step\<close> rounds up to 0.30000000000000004, the length of
  \<^verbatim>\<open>np.arange\<close> becomes 4, and the table has a fourth row, for that value, above
  \<^verbatim>\<open>tb_max\<close>. The same stop gives the rows 0, 2, 4 for the range from 0 to 3 in steps of 2.
\<close>

theorem candidates_overshoot_tb_max:
  "main_analise (\<lambda>s. None) True
     [''Data'' \<mapsto> [Stamp 1, Stamp 2], ''Tmin'' \<mapsto> [Num 10, Num 12],
      ''Tmax'' \<mapsto> [Num 20, Num 22], ''NF'' \<mapsto> [Missing, Missing]]
     0 (float64 (1 / 5)) (float64 (1 / 10)) ''Tmin'' ''Tmax'' ''NF'' 0
     = Inr ([\<lparr>res_Tb = 0, res_R2 = Some 0, Coeficiente_Angular = 0, Intercepto = 0\<rparr>,
             \<lparr>res_Tb = 3602879701896397 / 2 ^ 55, res_R2 = Some 0, Coeficiente_Angular = 0, Intercepto = 0\<rparr>,
             \<lparr>res_Tb = 3602879701896397 / 2 ^ 54, res_R2 = Some 0, Coeficiente_Angular = 0, Intercepto = 0\<rparr>,
             \<lparr>res_Tb = 5404319552844596 / 2 ^ 54, res_R2 = Some 0, Coeficiente_Angular = 0, Intercepto = 0\<rparr>],
            \<lparr>res_Tb = 0, res_R2 = Some 0, Coeficiente_Angular = 0, Intercepto = 0\<rparr>)
   \<and> float64 (1 / 10) = 3602879701896397 / 2 ^ 55
   \<and> float64 (1 / 5) = 3602879701896397 / 2 ^ 54
   \<and> (float64 (1 / 5) - 0) / float64 (1 / 10) + 1 = 3
   \<and> float64 (1 / 5) < 5404319552844596 / 2 ^ 54
   \<and> main_analise (\<lambda>s. None) True
     [''Data'' \<mapsto> [Stamp 1, Stamp 2], ''Tmin'' \<mapsto> [Num 10, Num 12],
      ''Tmax'' \<mapsto> [Num 20, Num 22], ''NF'' \<mapsto> [Missing, Missing]]
     0 3 2 ''Tmin'' ''Tmax'' ''NF'' 0
     = Inr ([\<lparr>res_Tb = 0, res_R2 = Some 0, Coeficiente_Angular = 0, Intercepto = 0\<rparr>,
             \<lparr>res_Tb = 2, res_R2 = Some 0, Coeficiente_Angular = 0, Intercepto = 0\<rparr>,
             \<lparr>res_Tb = 4, res_R2 = Some 0, Coeficiente_Angular = 0, Intercepto = 0\<rparr>],
            \<lparr>res_Tb = 0, res_R2 = Some 0, Coeficiente_Angular = 0, Intercepto = 0\<rparr>)"
proof -
  let ?df = "[''Data'' \<mapsto> [Stamp 1, Stamp 2], ''Tmin'' \<mapsto> [Num 10, Num 12],
      ''Tmax'' \<mapsto> [Num 20, Num 22], ''NF'' \<mapsto> [Missing, Missing]]"
  have df: "?df = no_leaf_counts" by (simp add: no_leaf_counts_def)
  have p: "pontos_validos (\<lambda>s. None) no_leaf_counts ''Tmin'' ''Tmax'' ''NF'' 0 < 2"
    by (simp add: no_leaf_counts_pontos)
  have s: "float64 (1 / 10) = 3602879701896397 / 2 ^ 55" and m: "float64 (1 / 5) = 3602879701896397 / 2 ^ 54"
    by (simp_all add: float64_eval)
  have ne: "[0, 3602879701896397 / 2 ^ 55, 3602879701896397 / 2 ^ 54, 5404319552844596 / 2 ^ 54 :: real] \<noteq> []"
    and ne2: "[0, 2, 4 :: real] \<noteq> []" by simp_all
  have a: "main_analise (\<lambda>s. None) True no_leaf_counts 0 (float64 (1 / 5)) (float64 (1 / 10))
             ''Tmin'' ''Tmax'' ''NF'' 0
     = Inr (map linha_padrao [0, 3602879701896397 / 2 ^ 55, 3602879701896397 / 2 ^ 54,
                              5404319552844596 / 2 ^ 54], linha_padrao 0)"
    by (rule main_analise_degenerate [OF p candidates_decimal_step ne])
  have b: "main_analise (\<lambda>s. None) True no_leaf_counts 0 3 2 ''Tmin'' ''Tmax'' ''NF'' 0
     = Inr (map linha_padrao [0, 2, 4], linha_padrao 0)"
    by (rule main_analise_degenerate [OF p candidates_0_3_2 ne2])
  have c: "(float64 (1 / 5) - 0) / float64 (1 / 10) + 1 = 3" unfolding s m by simp
  have d: "float64 (1 / 5) < 5404319552844596 / 2 ^ 54" unfolding m by simp
  have a': "main_analise (\<lambda>s. None) True no_leaf_counts 0 (float64 (1 / 5)) (float64 (1 / 10))
             ''Tmin'' ''Tmax'' ''NF'' 0
     = Inr ([\<lparr>res_Tb = 0, res_R2 = Some 0, Coeficiente_Angular = 0, Intercepto = 0\<rparr>,
             \<lparr>res_Tb = 3602879701896397 / 2 ^ 55, res_R2 = Some 0, Coeficiente_Angular = 0, Intercepto = 0\<rparr>,
             \<lparr>res_Tb = 3602879701896397 / 2 ^ 54, res_R2 = Some 0, Coeficiente_Angular = 0, Intercepto = 0\<rparr>,
             \<lparr>res_Tb = 5404319552844596 / 2 ^ 54, res_R2 = Some 0, Coeficiente_Angular = 0, Intercepto = 0\<rparr>],
            \<lparr>res_Tb = 0, res_R2 = Some 0, Coeficiente_Angular = 0, Intercepto = 0\<rparr>)"
    unfolding a by (simp add: linha_padrao_def)
  have b': "main_analise (\<lambda>s. None) True no_leaf_counts 0 3 2 ''Tmin'' ''Tmax'' ''NF'' 0
     = Inr ([\<lparr>res_Tb = 0, res_R2 = Some 0, Coeficiente_Angular = 0, Intercepto = 0\<rparr>,
             \<lparr>res_Tb = 2, res_R2 = Some 0, Coeficiente_Angular = 0, Intercepto = 0\<rparr>,
             \<lparr>res_Tb = 4, res_R2 = Some 0, Coeficiente_Angular = 0, Intercepto = 0\<rparr>],
            \<lparr>res_Tb = 0, res_R2 = Some 0, Coeficiente_Angular = 0, Intercepto = 0\<rparr>)"
    unfolding b by (simp add: linha_padrao_def)
  show ?thesis unfolding df by (intro conjI) (fact a' s m c d b')+
qed

section \<open>Claims on validation\<close>

lemma validate_data_never_reports_dates:
  "DateConversion \<notin> set (snd (validate_data parse_date parse_num df))"
proof (cases "df ''Data'' = None \<or> df ''Tmin'' = None \<or> df ''Tmax'' = None \<or> df ''NF'' = None")
  case True
  then show ?thesis by (simp add: validate_data_absent)
next
  case False
  then obtain d a b n where "df ''Data'' = Some d" "df ''Tmin'' = Some a" "df ''Tmax'' = Some b"
    "df ''NF'' = Some n" by auto
  from validate_data_present [OF this] show ?thesis by simp
qed

lemma validate_data_other_columns:
  assumes "c \<notin> set required_cols"
  shows "fst (validate_data parse_date parse_num df) c = df c"
proof (cases "df ''Data'' = None \<or> df ''Tmin'' = None \<or> df ''Tmax'' = None \<or> df ''NF'' = None")
  case True
  then show ?thesis by (simp add: validate_data_absent)
next
  case False
  then obtain d a b n where "df ''Data'' = Some d" "df ''Tmin'' = Some a" "df ''Tmax'' = Some b"
    "df ''NF'' = Some n" by auto
  from validate_data_present [OF this] assms show ?thesis by (simp add: required_cols_def)
qed

lemma calculate_tb_writes_Tmed:
  assumes "df ''Tmin'' = Some a" and "df ''Tmax'' = Some b"
    and "list_all is_number a" and "list_all is_number b"
  shows "fst (calculate_tb df) ''Tmed'' = Some (map f64_cell (tb_Tmed (map cell_f64 a) (map cell_f64 b)))"
proof -
  let ?v = "map f64_cell (tb_Tmed (map cell_f64 a) (map cell_f64 b))"
  have loop: "tb_loop (df(''Tmed'' \<mapsto> ?v)) tmed nf tbs [] = (df2, r) \<Longrightarrow> df2 ''Tmed'' = Some ?v"
    for tmed nf tbs df2 r
    using tb_loop_frame [of "''Tmed''" "df(''Tmed'' \<mapsto> ?v)" tmed nf tbs "[]"] by simp
  show ?thesis
    using assms(1,2)
    by (auto simp: calculate_tb_def Let_def numeric_col_ok [OF assms(3)] numeric_col_ok [OF assms(4)]
             dest: loop split: option.splits sum.splits prod.splits)
qed

text \<open>
  Claim C3, as the code has it. \<^verbatim>\<open>validate_data\<close> puts the two data-quality messages in
  the same list as every other message, and app.py runs \<^verbatim>\<open>calculate_tb\<close> only when that list
  is empty. On a table with the four required columns: a row with \<open>Tmin > Tmax\<close> or a
  decrease of the leaf count is reported and the estimation does not run; with neither,
  the estimation runs.
\<close>

theorem validation_messages_block_estimation:
  assumes "df ''Data'' = Some d" and "df ''Tmin'' = Some a" and "df ''Tmax'' = Some b"
    and "df ''NF'' = Some n"
  shows "(tmin_gt_tmax (map (to_numeric parse_num) a) (map (to_numeric parse_num) b)
          \<or> diff_negative (dropna (map cell_f64 (map (to_numeric parse_num) n)))
          \<longrightarrow> app_main parse_date parse_num df
                = Blocked ((if tmin_gt_tmax (map (to_numeric parse_num) a) (map (to_numeric parse_num) b)
                            then [TminAboveTmax] else [])
                           @ (if diff_negative (dropna (map cell_f64 (map (to_numeric parse_num) n)))
                              then [NFDecrease] else [])))
       \<and> (\<not> tmin_gt_tmax (map (to_numeric parse_num) a) (map (to_numeric parse_num) b)
          \<and> \<not> diff_negative (dropna (map cell_f64 (map (to_numeric parse_num) n)))
          \<longrightarrow> app_main parse_date parse_num df
                = (case snd (calculate_tb (fst (validate_data parse_date parse_num df))) of
                     Inl e \<Rightarrow> Fault e
                   | Inr (results_df, best_tb) \<Rightarrow> Shown results_df best_tb))"
  unfolding app_main_def validate_data_present [OF assms]
  by (auto simp: Let_def)

theorem validation_messages_block_estimation_witness:
  "tmin_gt_tmax (map (to_numeric (\<lambda>s. None)) [Num 10, Num 30]) (map (to_numeric (\<lambda>s. None)) [Num 20, Num 22])
   \<and> app_main (\<lambda>dayfirst s. None) (\<lambda>s. None)
        [''Data'' \<mapsto> [Stamp 1, Stamp 2], ''Tmin'' \<mapsto> [Num 10, Num 30],
         ''Tmax'' \<mapsto> [Num 20, Num 22], ''NF'' \<mapsto> [Num 3, Num 2]]
       = Blocked [TminAboveTmax, NFDecrease]
   \<and> \<not> tmin_gt_tmax (map (to_numeric (\<lambda>s. None)) [Num 10, Num 12, Num 14, Num 16, Num 18])
                      (map (to_numeric (\<lambda>s. None)) [Num 20, Num 22, Num 24, Num 26, Num 28])
   \<and> \<not> diff_negative (dropna (map cell_f64 (map (to_numeric (\<lambda>s. None)) [Missing, Num 2, Missing, Num 5, Num 8])))
   \<and> app_main (\<lambda>dayfirst s. None) (\<lambda>s. None) scenario
       = (case snd (calculate_tb (fst (validate_data (\<lambda>dayfirst s. None) (\<lambda>s. None) scenario))) of
            Inl e \<Rightarrow> Fault e
          | Inr (results_df, best_tb) \<Rightarrow> Shown results_df best_tb)"
proof -
  let ?df = "[''Data'' \<mapsto> [Stamp 1, Stamp 2], ''Tmin'' \<mapsto> [Num 10, Num 30],
         ''Tmax'' \<mapsto> [Num 20, Num 22], ''NF'' \<mapsto> [Num 3, Num (2::real)]]"
  have c: "?df ''Data'' = Some [Stamp 1, Stamp 2]" "?df ''Tmin'' = Some [Num 10, Num 30]"
    "?df ''Tmax'' = Some [Num 20, Num 22]" "?df ''NF'' = Some [Num 3, Num 2]" by simp_all
  have s: "scenario ''Data'' = Some [Stamp 1, Stamp 2, Stamp 3, Stamp 4, Stamp 5]"
    "scenario ''Tmin'' = Some [Num 10, Num 12, Num 14, Num 16, Num 18]"
    "scenario ''Tmax'' = Some [Num 20, Num 22, Num 24, Num 26, Num 28]"
    "scenario ''NF'' = Some [Missing, Num 2, Missing, Num 5, Num 8]" by (simp_all add: scenario_def)
  have t: "tmin_gt_tmax (map (to_numeric (\<lambda>s. None)) [Num 10, Num 30]) (map (to_numeric (\<lambda>s. None)) [Num 20, Num 22])"
    by (simp add: tmin_gt_tmax_def to_numeric_def cell_f64_def)
  have d: "diff_negative (dropna (map cell_f64 (map (to_numeric (\<lambda>s. None)) [Num 3, Num 2])))"
    by (simp add: to_numeric_def cell_f64_def)
  have t2: "\<not> tmin_gt_tmax (map (to_numeric (\<lambda>s. None)) [Num 10, Num 12, Num 14, Num 16, Num 18])
                      (map (to_numeric (\<lambda>s. None)) [Num 20, Num 22, Num 24, Num 26, Num 28])"
    by (simp add: tmin_gt_tmax_def to_numeric_def cell_f64_def)
  have d2: "\<not> diff_negative (dropna (map cell_f64 (map (to_numeric (\<lambda>s. None)) [Missing, Num 2, Missing, Num 5, Num 8])))"
    by (simp add: to_numeric_def cell_f64_def)
  from validation_messages_block_estimation
         [where df = ?df and parse_num = "\<lambda>s. None" and parse_date = "\<lambda>dayfirst s. None", OF c] t d
  have x: "app_main (\<lambda>dayfirst s. None) (\<lambda>s. None) ?df = Blocked [TminAboveTmax, NFDecrease]"
    by simp
  from validation_messages_block_estimation
         [where df = scenario and parse_num = "\<lambda>s. None" and parse_date = "\<lambda>dayfirst s. None", OF s] t2 d2
  have y: "app_main (\<lambda>dayfirst s. None) (\<lambda>s. None) scenario
       = (case snd (calculate_tb (fst (validate_data (\<lambda>dayfirst s. None) (\<lambda>s. None) scenario))) of
            Inl e \<Rightarrow> Fault e
          | Inr (results_df, best_tb) \<Rightarrow> Shown results_df best_tb)"
    by blast
  show ?thesis using t t2 d2 x y by blast
qed

text \<open>
  The claim as stated fails: one row with \<open>Tmin > Tmax\<close>, or one decrease of the leaf count,
  and the estimation is not run.
\<close>

theorem data_quality_message_blocks_counterexample:
  "app_main (\<lambda>dayfirst s. None) (\<lambda>s. None)
     [''Data'' \<mapsto> [Stamp 1, Stamp 2], ''Tmin'' \<mapsto> [Num 25, Num 12],
      ''Tmax'' \<mapsto> [Num 20, Num 22], ''NF'' \<mapsto> [Num 1, Num 2]]
     = Blocked [TminAboveTmax]
   \<and> app_main (\<lambda>dayfirst s. None) (\<lambda>s. None)
     [''Data'' \<mapsto> [Stamp 1, Stamp 2], ''Tmin'' \<mapsto> [Num 10, Num 12],
      ''Tmax'' \<mapsto> [Num 20, Num 22], ''NF'' \<mapsto> [Num 3, Num 2]]
     = Blocked [NFDecrease]"
  by (simp add: app_main_def validate_data_def required_cols_def convert_data_def
          to_datetime_coerce_def to_datetime_cell_def isnull_def coerce_col_def to_numeric_def
          tmin_gt_tmax_def cell_f64_def)

text \<open>
  Claim C4. The code evaluated at a table whose second date cannot be read (the parser
  reads the first date only, with or without day-first): the retry of \<^verbatim>\<open>validate_data\<close>
  runs on the column that the coercion has already overwritten, finds timestamps and NaT
  only, and raises nothing. Validation returns no message, the unreadable date stays in
  the table as NaT, and app.py goes on to show an estimate.
\<close>

theorem unparseable_date_passes_validation:
  "validate_data (\<lambda>dayfirst s. if s = ''15/01/2024'' then Some 19737 else None) (\<lambda>s. None)
     [''Data'' \<mapsto> [Str ''15/01/2024'', Str ''not a date''], ''Tmin'' \<mapsto> [Num 10, Num 12],
      ''Tmax'' \<mapsto> [Num 20, Num 22], ''NF'' \<mapsto> [Num 1, Num 2]]
     = ([''Data'' \<mapsto> [Stamp 19737, Missing], ''Tmin'' \<mapsto> [Num 10, Num 12],
         ''Tmax'' \<mapsto> [Num 20, Num 22], ''NF'' \<mapsto> [Num 1, Num 2]], [])
   \<and> (\<exists>results best.
         app_main (\<lambda>dayfirst s. if s = ''15/01/2024'' then Some 19737 else None) (\<lambda>s. None)
           [''Data'' \<mapsto> [Str ''15/01/2024'', Str ''not a date''], ''Tmin'' \<mapsto> [Num 10, Num 12],
            ''Tmax'' \<mapsto> [Num 20, Num 22], ''NF'' \<mapsto> [Num 1, Num 2]]
           = Shown results best)"
proof -
  let ?pd = "\<lambda>(dayfirst::bool) s. if s = ''15/01/2024'' then Some (19737::int) else None"
  let ?df = "[''Data'' \<mapsto> [Str ''15/01/2024'', Str ''not a date''], ''Tmin'' \<mapsto> [Num 10, Num 12],
      ''Tmax'' \<mapsto> [Num 20, Num 22], ''NF'' \<mapsto> [Num 1, Num (2::real)]]"
  let ?out = "[''Data'' \<mapsto> [Stamp 19737, Missing], ''Tmin'' \<mapsto> [Num 10, Num 12],
         ''Tmax'' \<mapsto> [Num 20, Num 22], ''NF'' \<mapsto> [Num 1, Num (2::real)]]"
  have v: "validate_data ?pd (\<lambda>s. None) ?df = (?out, [])"
    by (simp add: validate_data_def required_cols_def convert_data_def
          to_datetime_coerce_def to_datetime_cell_def isnull_def coerce_col_def to_numeric_def
          tmin_gt_tmax_def cell_f64_def)
  have "\<exists>df' results best. calculate_tb ?out = (df', Inr (results, best))"
    by (rule calculate_tb_succeeds [of _ "[Num 10, Num 12]" "[Num 20, Num 22]" "[Num 1, Num 2]"])
       (simp_all add: is_number_def cell_f64_def sample_complete_def sta_for_regression_def tb_Tmed_def
                   f64_div_def f64_add_def)
  then obtain df' results best where c: "calculate_tb ?out = (df', Inr (results, best))" by blast
  have "app_main ?pd (\<lambda>s. None) ?df = Shown results best"
    unfolding app_main_def v using c by simp
  then show ?thesis using v by blast
qed

text \<open>
  Claim C9, as the code has it. \<^verbatim>\<open>validate_data\<close> overwrites the columns \<^verbatim>\<open>Data\<close>,
  \<^verbatim>\<open>Tmin\<close>, \<^verbatim>\<open>Tmax\<close> and \<^verbatim>\<open>NF\<close> of the table it is given with their parsed and coerced
  values and touches no other column; validating its own result again changes nothing.
  \<^verbatim>\<open>calculate_tb\<close> writes the columns \<^verbatim>\<open>Tmed\<close>, \<^verbatim>\<open>STd\<close> and \<^verbatim>\<open>STa\<close> into the frame it is
  given (app.py hands it a copy) and leaves every other column, so the dates, the
  temperatures and the leaf counts, as they were, whether it returns or raises.
\<close>

theorem validation_and_estimation_frame:
  "fst (validate_data parse_date parse_num (fst (validate_data parse_date parse_num df)))
     = fst (validate_data parse_date parse_num df)
   \<and> (\<forall>c. c \<notin> set required_cols \<longrightarrow> fst (validate_data parse_date parse_num df) c = df c)
   \<and> (\<forall>c. c \<notin> {''Tmed'', ''STd'', ''STa''} \<longrightarrow> fst (calculate_tb df) c = df c)"
  by (simp add: validate_data_idem validate_data_other_columns calculate_tb_frame)

theorem validation_and_estimation_frame_witness:
  "''Tmed'' \<notin> set required_cols \<and> ''NF'' \<notin> {''Tmed'', ''STd'', ''STa''}
   \<and> fst (validate_data (\<lambda>dayfirst s. None) (\<lambda>s. None) scenario) ''Tmed'' = None
   \<and> fst (calculate_tb scenario) ''NF'' = Some [Missing, Num 2, Missing, Num 5, Num 8]"
  using validation_and_estimation_frame [of "\<lambda>dayfirst s. None" "\<lambda>s. None" scenario]
  by (simp add: required_cols_def scenario_def)

text \<open>
  The claim as stated fails: validation replaces a text in \<^verbatim>\<open>Tmin\<close> by NaN in the table it
  was given, and the estimation adds the column \<^verbatim>\<open>Tmed\<close> to the frame it was given.
\<close>

theorem tables_written_in_place_counterexample:
  "[''Data'' \<mapsto> [Stamp 1], ''Tmin'' \<mapsto> [Str ''abc''], ''Tmax'' \<mapsto> [Num 20], ''NF'' \<mapsto> [Num 1]] ''Tmin''
     = Some [Str ''abc'']
   \<and> fst (validate_data (\<lambda>dayfirst s. None) (\<lambda>s. None)
        [''Data'' \<mapsto> [Stamp 1], ''Tmin'' \<mapsto> [Str ''abc''], ''Tmax'' \<mapsto> [Num 20], ''NF'' \<mapsto> [Num 1]]) ''Tmin''
     = Some [Missing]
   \<and> [''Data'' \<mapsto> [Stamp 1], ''Tmin'' \<mapsto> [Num 10], ''Tmax'' \<mapsto> [Num 20], ''NF'' \<mapsto> [Num 1]] ''Tmed''
     = None
   \<and> fst (calculate_tb
        [''Data'' \<mapsto> [Stamp 1], ''Tmin'' \<mapsto> [Num 10], ''Tmax'' \<mapsto> [Num 20], ''NF'' \<mapsto> [Num 1]]) ''Tmed''
     = Some [Num 15]"
proof -
  let ?df = "[''Data'' \<mapsto> [Stamp 1], ''Tmin'' \<mapsto> [Num 10], ''Tmax'' \<mapsto> [Num 20], ''NF'' \<mapsto> [Num (1::real)]]"
  have "fst (calculate_tb ?df) ''Tmed'' = Some (map f64_cell (tb_Tmed (map cell_f64 [Num 10]) (map cell_f64 [Num 20])))"
    by (rule calculate_tb_writes_Tmed) (simp_all add: is_number_def)
  then have t: "fst (calculate_tb ?df) ''Tmed'' = Some [Num 15]"
    by (simp add: tb_Tmed_def cell_f64_def f64_cell_def f64_add_def f64_div_def)
  show ?thesis
    using t
    by (simp add: validate_data_def required_cols_def convert_data_def
          to_datetime_coerce_def to_datetime_cell_def isnull_def coerce_col_def to_numeric_def
          tmin_gt_tmax_def cell_f64_def)
qed

section \<open>Claims on missing leaf counts\<close>

text \<open>
  Claim C5. The code evaluated at a table whose second day, a day with a leaf count, has
  a text in \<^verbatim>\<open>Tmin\<close>. Validation turns the text into a missing value and returns no
  message. \<^verbatim>\<open>calculate_tb\<close> then has no accumulated sum for that day, passes the NaN to
  the fit among the abscissae, and app.py ends in a ValueError that nothing catches. On
  the same table \<^verbatim>\<open>estimar_tb_otimo\<close> completes: with the regression running, the row of
  the second day is masked and the fit goes through the other two measurements; without
  it, the exception is caught and the candidate gets the row of the \<^verbatim>\<open>except\<close> branch.
\<close>

theorem text_temperature_on_measured_day_faults:
  "snd (validate_data (\<lambda>dayfirst s. None) (\<lambda>s. None)
          [''Data'' \<mapsto> [Stamp 1, Stamp 2, Stamp 3], ''Tmin'' \<mapsto> [Num 10, Str ''x'', Num 10],
           ''Tmax'' \<mapsto> [Num 20, Num 20, Num 20], ''NF'' \<mapsto> [Num 1, Num 2, Num 3]]) = []
   \<and> fst (validate_data (\<lambda>dayfirst s. None) (\<lambda>s. None)
          [''Data'' \<mapsto> [Stamp 1, Stamp 2, Stamp 3], ''Tmin'' \<mapsto> [Num 10, Str ''x'', Num 10],
           ''Tmax'' \<mapsto> [Num 20, Num 20, Num 20], ''NF'' \<mapsto> [Num 1, Num 2, Num 3]]) ''Tmin''
       = Some [Num 10, Missing, Num 10]
   \<and> app_main (\<lambda>dayfirst s. None) (\<lambda>s. None)
          [''Data'' \<mapsto> [Stamp 1, Stamp 2, Stamp 3], ''Tmin'' \<mapsto> [Num 10, Str ''x'', Num 10],
           ''Tmax'' \<mapsto> [Num 20, Num 20, Num 20], ''NF'' \<mapsto> [Num 1, Num 2, Num 3]]
       = Fault ValueError
   \<and> estimar_tb_otimo (\<lambda>s. None) True
          [''Data'' \<mapsto> [Stamp 1, Stamp 2, Stamp 3], ''Tmin'' \<mapsto> [Num 10, Str ''x'', Num 10],
           ''Tmax'' \<mapsto> [Num 20, Num 20, Num 20], ''NF'' \<mapsto> [Num 1, Num 2, Num 3]]
          [0] ''Tmin'' ''Tmax'' ''NF'' 0
       = [\<lparr>res_Tb = 0, res_R2 = Some 1, Coeficiente_Angular = 2 / 15, Intercepto = - 1\<rparr>]
   \<and> estimar_tb_otimo (\<lambda>s. None) False
          [''Data'' \<mapsto> [Stamp 1, Stamp 2, Stamp 3], ''Tmin'' \<mapsto> [Num 10, Str ''x'', Num 10],
           ''Tmax'' \<mapsto> [Num 20, Num 20, Num 20], ''NF'' \<mapsto> [Num 1, Num 2, Num 3]]
          [0] ''Tmin'' ''Tmax'' ''NF'' 0
       = [\<lparr>res_Tb = 0, res_R2 = Some 0, Coeficiente_Angular = 0, Intercepto = 0\<rparr>]"
proof -
  let ?df = "[''Data'' \<mapsto> [Stamp 1, Stamp 2, Stamp 3], ''Tmin'' \<mapsto> [Num 10, Str ''x'', Num 10],
           ''Tmax'' \<mapsto> [Num 20, Num 20, Num 20], ''NF'' \<mapsto> [Num 1, Num 2, Num (3::real)]]"
  let ?out = "?df(''Data'' \<mapsto> to_datetime_coerce (\<lambda>s. None) [Stamp 1, Stamp 2, Stamp 3],
               ''Tmin'' \<mapsto> map (to_numeric (\<lambda>s. None)) [Num 10, Str ''x'', Num 10],
               ''Tmax'' \<mapsto> map (to_numeric (\<lambda>s. None)) [Num 20, Num 20, Num 20],
               ''NF'' \<mapsto> map (to_numeric (\<lambda>s. None)) [Num 1, Num 2, Num 3])"
  have c: "?df ''Data'' = Some [Stamp 1, Stamp 2, Stamp 3]" "?df ''Tmin'' = Some [Num 10, Str ''x'', Num 10]"
    "?df ''Tmax'' = Some [Num 20, Num 20, Num 20]" "?df ''NF'' = Some [Num 1, Num 2, Num 3]" by simp_all
  have v: "validate_data (\<lambda>dayfirst s. None) (\<lambda>s. None) ?df = (?out, [])"
    unfolding validate_data_present
      [where df = ?df and pd = "\<lambda>dayfirst s. None" and pn = "\<lambda>s. None", OF c]
    by (simp add: tmin_gt_tmax_def to_numeric_def cell_f64_def)
  have v1: "snd (validate_data (\<lambda>dayfirst s. None) (\<lambda>s. None) ?df) = []"
    unfolding v by simp
  have v2: "fst (validate_data (\<lambda>dayfirst s. None) (\<lambda>s. None) ?df) ''Tmin''
              = Some [Num 10, Missing, Num 10]"
    unfolding v by (simp add: to_numeric_def)
  have f: "snd (calculate_tb ?out) = Inl ValueError"
    by (rule calculate_tb_fails
          [of _ "[Num 10, Missing, Num 10]" "[Num 20, Num 20, Num 20]" "[Num 1, Num 2, Num 3]"])
       (simp_all add: to_numeric_def is_number_def cell_f64_def sample_complete_def
          sta_for_regression_def tb_Tmed_def f64_div_def f64_add_def)
  have a: "app_main (\<lambda>dayfirst s. None) (\<lambda>s. None) ?df = Fault ValueError"
    unfolding app_main_def v using f by simp
  have sta: "calcular_sta (calcular_std (calcular_tmed [Some 10, None, Some 10]
                                                        [Some 20, Some 20, Some 20]) 0)
               = [Some 15, None, Some 30]"
    by (simp add: calcular_sta_def calcular_std_def calcular_tmed_def cumsum_def np_maximum_def
          f64_sub_def f64_div_def f64_add_def)
  have reg: "realizar_regressao True [Some 15, None, Some 30] [Some 1, Some 2, Some 3] 0
       = Inr (Some (2 / 15), Some (- 1), Some 1, Some [15, 30], Some [1, 3])"
    by (simp add: realizar_regressao_def regressao_mask_def select_mask_def LinearRegression_fit_def
          predict_def r2_score_def ols_def mean_def Let_def power2_eq_square)
  have rtb: "regressao_tb (\<lambda>s. None) sr ?df ''Tmin'' ''Tmax'' ''NF'' 0 0
       = realizar_regressao sr [Some 15, None, Some 30] [Some 1, Some 2, Some 3] 0" for sr
    unfolding regressao_tb_def c option.case Let_def
    using sta by (simp add: to_numeric_def cell_f64_def)
  have e1: "estimar_tb_otimo (\<lambda>s. None) True ?df [0] ''Tmin'' ''Tmax'' ''NF'' 0
       = [\<lparr>res_Tb = 0, res_R2 = Some 1, Coeficiente_Angular = 2 / 15, Intercepto = - 1\<rparr>]"
    by (simp only: estimar_tb_otimo_def list.map rtb reg) (simp add: linha_resultado_def)
  have e2: "estimar_tb_otimo (\<lambda>s. None) False ?df [0] ''Tmin'' ''Tmax'' ''NF'' 0
       = [\<lparr>res_Tb = 0, res_R2 = Some 0, Coeficiente_Angular = 0, Intercepto = 0\<rparr>]"
    by (simp only: estimar_tb_otimo_def list.map rtb) (simp add: realizar_regressao_def linha_resultado_def)
  show ?thesis by (intro conjI) (fact v1 v2 a e1 e2)+
qed

end
